theory Spec2Isabelle
  imports Main
begin

section \<open>Symbol table (symtab.h, symtab.c)\<close>

text \<open>
  The C enum \<^verbatim>\<open>SymbolType\<close>; its members print as 0, 1 and 2 under \<^verbatim>\<open>%d\<close>.
\<close>

datatype SymbolType = SYMBOL_TYPE_UNDEFINED | SYMBOL_TYPE_SCALAR | SYMBOL_TYPE_VECTOR

text \<open>
  The anonymous union \<^verbatim>\<open>value\<close> of \<^verbatim>\<open>struct Symbol\<close>: either \<^verbatim>\<open>scalar_value\<close> or the pair
  \<^verbatim>\<open>vector_value.data\<close>, \<^verbatim>\<open>vector_value.size\<close>. A \<^verbatim>\<open>double *\<close> is \<open>None\<close> when it is
  \<^verbatim>\<open>NULL\<close> and \<open>Some buf\<close> when it points to the buffer \<open>buf\<close>. The type \<open>'d\<close> stands for
  \<^verbatim>\<open>double\<close>: the program stores, copies and prints such values and never computes with them.
\<close>

datatype 'd SymbolValue =
    scalar_value 'd
  | vector_value (vector_data: "'d list option") (vector_size: nat)

record 'd Symbol =
  sym_name :: string
  sym_type :: SymbolType
  sym_value :: "'d SymbolValue"

text \<open>
  The table is the singly linked list that starts at \<^verbatim>\<open>symbol_list_head\<close>, head first.
  Nodes are only ever linked in at the head and never unlinked one by one, so the number
  of nodes that follow a node never changes: a \<^verbatim>\<open>Symbol *\<close> into the table is modelled by
  that number, and \<open>None\<close> is \<^verbatim>\<open>NULL\<close>. Allocation is taken to succeed.
\<close>

type_synonym 'd symtab = "'d Symbol list"

definition symbol_deref :: "'d symtab \<Rightarrow> nat \<Rightarrow> 'd Symbol option" where
  "symbol_deref tab h =
     (if h < length tab then Some (tab ! (length tab - 1 - h)) else None)"

fun symbol_lookup_loop :: "string \<Rightarrow> 'd symtab \<Rightarrow> nat option" where
  "symbol_lookup_loop n [] = None"
| "symbol_lookup_loop n (current # rest) =
     (if sym_name current = n then Some (length rest) else symbol_lookup_loop n rest)"

fun symbol_lookup :: "string option \<Rightarrow> 'd symtab \<Rightarrow> nat option" where
  "symbol_lookup None tab = None"
| "symbol_lookup (Some n) tab = symbol_lookup_loop n tab"

datatype fatal = EXIT_FAILURE

fun symbol_insert :: "string option \<Rightarrow> ('d::zero) symtab \<Rightarrow> fatal + (nat \<times> 'd symtab)" where
  "symbol_insert None tab = Inl EXIT_FAILURE"
| "symbol_insert (Some n) tab =
     (case symbol_lookup (Some n) tab of
        Some symb \<Rightarrow> Inr (symb, tab)
      | None \<Rightarrow>
          Inr (length tab,
               \<lparr>sym_name = n, sym_type = SYMBOL_TYPE_SCALAR, sym_value = scalar_value 0\<rparr> # tab))"

text \<open>
  The setters work on the node the handle points to; the model takes the node and returns
  it as it is after the call, and \<open>None\<close> for a \<^verbatim>\<open>NULL\<close> handle, where the call returns at
  once. \<^verbatim>\<open>free_symbol_value_data\<close> reads the vector arm of the union only when the type
  field says vector; a node whose type field and union arm disagree is left as it is.
\<close>

definition free_symbol_value_data :: "'d Symbol \<Rightarrow> 'd Symbol" where
  "free_symbol_value_data symb =
     (if sym_type symb = SYMBOL_TYPE_VECTOR then
        (case sym_value symb of
           vector_value (Some d) n \<Rightarrow> symb\<lparr>sym_value := vector_value None 0\<rparr>
         | _ \<Rightarrow> symb)
      else symb)"

fun symbol_set_scalar :: "'d Symbol option \<Rightarrow> 'd \<Rightarrow> 'd Symbol option" where
  "symbol_set_scalar None val = None"
| "symbol_set_scalar (Some symb) val =
     Some ((free_symbol_value_data symb)
             \<lparr>sym_type := SYMBOL_TYPE_SCALAR, sym_value := scalar_value val\<rparr>)"

text \<open>
  \<^verbatim>\<open>memcpy\<close> copies the first \<open>size\<close> elements of the caller's buffer, which the caller
  promises to be that long.
\<close>

fun symbol_set_vector :: "'d Symbol option \<Rightarrow> 'd list option \<Rightarrow> nat \<Rightarrow> 'd Symbol option" where
  "symbol_set_vector None dat sz = None"
| "symbol_set_vector (Some symb) dat sz =
     Some ((free_symbol_value_data symb)
             \<lparr>sym_type := SYMBOL_TYPE_VECTOR,
              sym_value :=
                (case dat of
                   None \<Rightarrow> vector_value None sz
                 | Some buf \<Rightarrow>
                     if sz = 0 then vector_value None sz
                     else vector_value (Some (take sz buf)) sz)\<rparr>)"

definition symbol_table_destroy :: "'d symtab \<Rightarrow> 'd symtab" where
  "symbol_table_destroy tab = []"

text \<open>
  Modelled from the spec: \<^verbatim>\<open>symbol_get_list_head\<close> is declared in symtab.h and called by
  the code generator, but no definition of it is among the sources. The header says it
  returns the head of the symbol list for iteration, and the spec that enumeration runs
  from the most recently inserted entry on.
\<close>

definition symbol_get_list_head :: "'d symtab \<Rightarrow> 'd symtab" where
  "symbol_get_list_head tab = tab"

section \<open>Abstract syntax tree (ast.h)\<close>

text \<open>
  One constructor for each member of the enum \<^verbatim>\<open>NodeType\<close>, carrying the arm of the union
  that the member selects. A child pointer \<^verbatim>\<open>ASTNode *\<close> is an \<open>option\<close>, \<open>None\<close> being
  \<^verbatim>\<open>NULL\<close>; the items of a \<^verbatim>\<open>NodeList\<close> are never \<^verbatim>\<open>NULL\<close>, since the append functions
  of ast.c refuse a \<^verbatim>\<open>NULL\<close> item. A \<^verbatim>\<open>struct Symbol *\<close> held by a node is never \<^verbatim>\<open>NULL\<close>
  (the generator asserts so before it reads one); the generator only reads the name and
  the type field through it and writes neither, so the node carries the symbol it points
  to.
\<close>

datatype 'd ASTNode =
    NODE_TYPE_UNKNOWN
  | NODE_TYPE_NUMBER 'd
  | NODE_TYPE_VECTOR "'d ASTNode list"
  | NODE_TYPE_IDENTIFIER "'d Symbol"
  | NODE_TYPE_BINARY_OP char "'d ASTNode option" "'d ASTNode option"
  | NODE_TYPE_UNARY_OP char "'d ASTNode option"
  | NODE_TYPE_ASSIGNMENT "'d Symbol" "'d ASTNode option"
  | NODE_TYPE_STATEMENT_LIST "'d ASTNode list"
  | NODE_TYPE_IF "'d ASTNode option" "'d ASTNode option" "'d ASTNode option"
  | NODE_TYPE_WHILE "'d ASTNode option" "'d ASTNode option"
  | NODE_TYPE_FUNC_CALL "'d Symbol" "'d ASTNode list"

section \<open>Code generator (codegen.c)\<close>

subsection \<open>Formatting\<close>

text \<open>What \<^verbatim>\<open>%d\<close> and \<^verbatim>\<open>%ld\<close> print.\<close>

function string_of_nat :: "nat \<Rightarrow> string" where
  "string_of_nat n =
     (if n < 10 then [char_of (48 + n)]
      else string_of_nat (n div 10) @ [char_of (48 + n mod 10)])"
  by pat_completeness auto
termination
  by (relation "measure id") auto

declare string_of_nat.simps [simp del]

definition string_of_int :: "int \<Rightarrow> string" where
  "string_of_int i =
     (if i < 0 then CHR ''-'' # string_of_nat (nat (- i)) else string_of_nat (nat i))"

fun SymbolType_num :: "SymbolType \<Rightarrow> nat" where
  "SymbolType_num SYMBOL_TYPE_UNDEFINED = 0"
| "SymbolType_num SYMBOL_TYPE_SCALAR = 1"
| "SymbolType_num SYMBOL_TYPE_VECTOR = 2"

fun NodeType_num :: "'d ASTNode \<Rightarrow> nat" where
  "NodeType_num NODE_TYPE_UNKNOWN = 0"
| "NodeType_num (NODE_TYPE_NUMBER v) = 1"
| "NodeType_num (NODE_TYPE_VECTOR items) = 2"
| "NodeType_num (NODE_TYPE_IDENTIFIER symb) = 3"
| "NodeType_num (NODE_TYPE_BINARY_OP op l r) = 4"
| "NodeType_num (NODE_TYPE_UNARY_OP op operand) = 5"
| "NodeType_num (NODE_TYPE_ASSIGNMENT symb e) = 6"
| "NodeType_num (NODE_TYPE_STATEMENT_LIST items) = 7"
| "NodeType_num (NODE_TYPE_IF c t e) = 8"
| "NodeType_num (NODE_TYPE_WHILE c b) = 9"
| "NodeType_num (NODE_TYPE_FUNC_CALL symb args) = 10"

text \<open>
  \<^verbatim>\<open>snprintf(buf, n, ...)\<close> keeps the first \<open>n - 1\<close> characters of the expansion;
  \<^verbatim>\<open>strncat(dst, src, n)\<close> appends at most \<open>n\<close> characters of \<open>src\<close>.
\<close>

definition snprintf :: "nat \<Rightarrow> string \<Rightarrow> string" where
  "snprintf n expansion = take (n - 1) expansion"

definition strncat :: "string \<Rightarrow> string \<Rightarrow> nat \<Rightarrow> string" where
  "strncat dst src n = dst @ take n src"

subsection \<open>State of the generator\<close>

text \<open>
  The three file-scope variables of codegen.c, and the text the generator has written to
  the standard error and output streams. \<open>output_file\<close> is \<open>None\<close> when the pointer is
  \<^verbatim>\<open>NULL\<close>, and otherwise the text written to the open file so far. The counter is a C
  \<^verbatim>\<open>int\<close> that a run sets to 0 and increases by one for each temporary; the model does
  not bound it, and says nothing of a run that allocates more than \<open>2\<^sup>3\<^sup>1 - 1\<close>
  temporaries, where the C increment overflows.
\<close>

record cg_state =
  output_file :: "string option"
  temp_var_counter :: int
  codegen_error_occurred :: int
  stderr :: string
  stdout :: string

text \<open>
  The structure \<^verbatim>\<open>ExprResult\<close>; its fields are \<^verbatim>\<open>code\<close>, \<^verbatim>\<open>type\<close> and
  \<^verbatim>\<open>is_temporary\<close>.
\<close>

record ExprResult =
  code :: string
  expr_type :: SymbolType
  is_temporary :: int

text \<open>
  \<open>report_codegen_error\<close> and \<open>emit\<close> take the expansion of their format string.
\<close>

definition report_codegen_error :: "string \<Rightarrow> cg_state \<Rightarrow> cg_state" where
  "report_codegen_error msg s =
     s\<lparr>stderr := stderr s @ ''Semantic Error: '' @ msg @ [CHR 0x0A],
       codegen_error_occurred := 1\<rparr>"

definition emit :: "nat \<Rightarrow> string \<Rightarrow> cg_state \<Rightarrow> cg_state" where
  "emit indent_level text s =
     (case output_file s of
        None \<Rightarrow> s
      | Some f \<Rightarrow>
          s\<lparr>output_file :=
              Some (f @ concat (replicate indent_level ''    '') @ text @ [CHR 0x0A])\<rparr>)"

definition new_temp_scalar_var :: "cg_state \<Rightarrow> string \<times> cg_state" where
  "new_temp_scalar_var s =
     (snprintf 16 (''_ts'' @ string_of_int (temp_var_counter s)),
      s\<lparr>temp_var_counter := temp_var_counter s + 1\<rparr>)"

definition new_temp_vector_var :: "cg_state \<Rightarrow> string \<times> cg_state" where
  "new_temp_vector_var s =
     (snprintf 16 (''_tv'' @ string_of_int (temp_var_counter s)),
      s\<lparr>temp_var_counter := temp_var_counter s + 1\<rparr>)"

subsection \<open>Expressions\<close>

text \<open>
  The argument string of a call to an external function: the loop over \<^verbatim>\<open>arg_results\<close>
  that fills \<^verbatim>\<open>arg_str\<close>, a buffer of \<open>arg_str_capacity\<close> bytes, with \<^verbatim>\<open>strncat\<close>. A vector
  argument goes through the 128-byte buffer \<^verbatim>\<open>vec_arg_part\<close> first.
\<close>

fun arg_str_loop :: "nat \<Rightarrow> nat \<Rightarrow> ExprResult list \<Rightarrow> string \<Rightarrow> string" where
  "arg_str_loop arg_str_capacity i [] arg_str = arg_str"
| "arg_str_loop arg_str_capacity i (arg # rest) arg_str =
     (let a1 = (if i > 0
                then strncat arg_str '', '' (arg_str_capacity - length arg_str - 1)
                else arg_str);
          a2 = (if expr_type arg = SYMBOL_TYPE_VECTOR
                then strncat a1 (snprintf 128 (code arg @ ''.data, '' @ code arg @ ''.size''))
                       (arg_str_capacity - length a1 - 1)
                else strncat a1 (code arg) (arg_str_capacity - length a1 - 1))
      in arg_str_loop arg_str_capacity (i + 1) rest a2)"

text \<open>
  The \<^verbatim>\<open>default\<close> label of the switch in \<^verbatim>\<open>generate_expression\<close>, reached for the node
  types that are not expressions; its argument is what \<^verbatim>\<open>%d\<close> prints for the node type.
\<close>

definition default_expression :: "nat \<Rightarrow> cg_state \<Rightarrow> ExprResult \<times> cg_state" where
  "default_expression node_type s =
     (\<lparr>code = snprintf 256 (''/* UNIMPL EXPR '' @ string_of_nat node_type @ '' */''),
       expr_type = SYMBOL_TYPE_SCALAR, is_temporary = 1\<rparr>,
      emit 1 (''// Expression generation not implemented for node type '' @
              string_of_nat node_type) s)"

text \<open>
  \<open>generate_expression\<close> returns the \<^verbatim>\<open>ExprResult\<close> and the state after the call. Its
  first argument stands for the \<^verbatim>\<open>%f\<close> conversion of the C library, which prints a
  \<^verbatim>\<open>double\<close>. \<open>generate_vector_items\<close> is the loop over the elements of a vector literal
  and \<open>generate_arguments\<close> the loop that fills \<^verbatim>\<open>arg_results\<close>. The result starts as
  \<^verbatim>\<open>{"0.0", SYMBOL_TYPE_SCALAR, 1}\<close> and keeps that value on the paths that do not
  assign it.
\<close>

function
  generate_expression ::
    "('d \<Rightarrow> string) \<Rightarrow> 'd ASTNode option \<Rightarrow> cg_state \<Rightarrow> ExprResult \<times> cg_state" and
  generate_vector_items ::
    "('d \<Rightarrow> string) \<Rightarrow> 'd ASTNode list \<Rightarrow> cg_state \<Rightarrow> cg_state" and
  generate_arguments ::
    "('d \<Rightarrow> string) \<Rightarrow> 'd ASTNode list \<Rightarrow> cg_state \<Rightarrow> ExprResult list \<times> cg_state"
where
  "generate_expression fmt None s =
     (\<lparr>code = ''/* null expr */'', expr_type = SYMBOL_TYPE_SCALAR, is_temporary = 1\<rparr>, s)"
| "generate_expression fmt (Some (NODE_TYPE_NUMBER number_value)) s =
     (\<lparr>code = snprintf 256 (fmt number_value), expr_type = SYMBOL_TYPE_SCALAR,
       is_temporary = 1\<rparr>, s)"
| "generate_expression fmt (Some (NODE_TYPE_IDENTIFIER identifier_symbol)) s =
     (\<lparr>code = sym_name identifier_symbol, expr_type = sym_type identifier_symbol,
       is_temporary = 1\<rparr>, s)"
| "generate_expression fmt (Some (NODE_TYPE_VECTOR vector_elements)) s =
     (case new_temp_vector_var s of (temp_vec_var_name, s1) \<Rightarrow>
        let temp_array_name = snprintf 64 (temp_vec_var_name @ ''_init_data'');
            s2 = emit 1 (''// Generating vector literal for '' @ temp_vec_var_name) s1;
            s3 = emit 1 (''double '' @ temp_array_name @ ''[] = {'') s2;
            s4 = generate_vector_items fmt vector_elements s3;
            s5 = emit 1 ''};'' s4;
            s6 = emit 1 (''vector_assign(&'' @ temp_vec_var_name @ '', (Vector){ '' @
                         temp_array_name @ '', '' @
                         string_of_nat (length vector_elements) @ '' });'') s5
        in (\<lparr>code = temp_vec_var_name, expr_type = SYMBOL_TYPE_VECTOR, is_temporary = 0\<rparr>,
            s6))"
| "generate_expression fmt (Some (NODE_TYPE_BINARY_OP op left right)) s =
     (case generate_expression fmt left s of (left_res, s1) \<Rightarrow>
      case generate_expression fmt right s1 of (right_res, s2) \<Rightarrow>
        if expr_type left_res = SYMBOL_TYPE_SCALAR \<and> expr_type right_res = SYMBOL_TYPE_SCALAR
        then
          (case new_temp_scalar_var s2 of (temp_scalar_var, s3) \<Rightarrow>
             (\<lparr>code = temp_scalar_var, expr_type = SYMBOL_TYPE_SCALAR, is_temporary = 0\<rparr>,
              emit 1 (temp_scalar_var @ '' = ('' @ code left_res @ '') '' @ [op] @ '' ('' @
                      code right_res @ '');'') s3))
        else if expr_type left_res = SYMBOL_TYPE_VECTOR \<and>
                expr_type right_res = SYMBOL_TYPE_VECTOR
        then
          (case new_temp_vector_var s2 of (temp_vector_var, s3) \<Rightarrow>
             let op_func =
                   (if op = CHR ''+'' then ''vector_add''
                    else if op = CHR ''-'' then ''vector_sub''
                    else if op = CHR ''*'' then ''vector_mul''
                    else if op = CHR ''/'' then ''vector_div''
                    else []);
                 s4 = (if op = CHR ''+'' \<or> op = CHR ''-'' \<or> op = CHR ''*'' \<or> op = CHR ''/''
                       then s3
                       else emit 1 (''// ERROR: Unsupported vector binary op '' @
                                    [CHR 0x27, op, CHR 0x27]) s3)
             in if length op_func > 0
                then (\<lparr>code = temp_vector_var, expr_type = SYMBOL_TYPE_VECTOR,
                       is_temporary = 0\<rparr>,
                      emit 1 (temp_vector_var @ '' = '' @ op_func @ ''('' @ code left_res @
                              '', '' @ code right_res @ '');'') s4)
                else (\<lparr>code = ''/* Invalid vector op */'', expr_type = SYMBOL_TYPE_VECTOR,
                       is_temporary = 1\<rparr>, s4))
        else if expr_type left_res = SYMBOL_TYPE_VECTOR \<and>
                expr_type right_res = SYMBOL_TYPE_SCALAR \<and> op = CHR ''+''
        then
          (case new_temp_vector_var s2 of (temp_vector_var, s3) \<Rightarrow>
             (\<lparr>code = temp_vector_var, expr_type = SYMBOL_TYPE_VECTOR, is_temporary = 0\<rparr>,
              emit 1 (temp_vector_var @ '' = vector_add_scalar('' @ code left_res @ '', '' @
                      code right_res @ '');'') s3))
        else if expr_type left_res = SYMBOL_TYPE_SCALAR \<and>
                expr_type right_res = SYMBOL_TYPE_VECTOR \<and> op = CHR ''+''
        then
          (case new_temp_vector_var s2 of (temp_vector_var, s3) \<Rightarrow>
             (\<lparr>code = temp_vector_var, expr_type = SYMBOL_TYPE_VECTOR, is_temporary = 0\<rparr>,
              emit 1 (temp_vector_var @ '' = vector_add_scalar('' @ code right_res @ '', '' @
                      code left_res @ '');'') s3))
        else if (expr_type left_res = SYMBOL_TYPE_VECTOR \<and>
                 expr_type right_res = SYMBOL_TYPE_SCALAR) \<or>
                (expr_type left_res = SYMBOL_TYPE_SCALAR \<and>
                 expr_type right_res = SYMBOL_TYPE_VECTOR)
        then
          (if op = CHR ''+''
           then
             (case new_temp_vector_var s2 of (temp_vector_var, s3) \<Rightarrow>
                (\<lparr>code = temp_vector_var, expr_type = SYMBOL_TYPE_VECTOR, is_temporary = 0\<rparr>,
                 emit 1 (temp_vector_var @ '' = vector_add_scalar('' @ code left_res @
                         '', '' @ code right_res @ '');'') s3))
           else
             (\<lparr>code = ''0.0'', expr_type = SYMBOL_TYPE_SCALAR, is_temporary = 1\<rparr>,
              report_codegen_error
                (''Unsupported binary operation '' @ [CHR 0x27, op, CHR 0x27] @
                 '' between scalar and vector.'') s2))
        else
          (\<lparr>code = ''0.0'', expr_type = SYMBOL_TYPE_SCALAR, is_temporary = 1\<rparr>,
           report_codegen_error
             (''Type mismatch for binary operation '' @ [CHR 0x27, op, CHR 0x27] @
              '' (LHS: '' @ string_of_nat (SymbolType_num (expr_type left_res)) @
              '', RHS: '' @ string_of_nat (SymbolType_num (expr_type right_res)) @ '').'')
             s2))"
| "generate_expression fmt (Some (NODE_TYPE_UNARY_OP op operand)) s =
     (case generate_expression fmt operand s of (left_res, s1) \<Rightarrow>
        if expr_type left_res = SYMBOL_TYPE_SCALAR \<and> op = CHR ''-''
        then
          (case new_temp_scalar_var s1 of (temp_scalar_var, s2) \<Rightarrow>
             (\<lparr>code = temp_scalar_var, expr_type = SYMBOL_TYPE_SCALAR, is_temporary = 0\<rparr>,
              emit 1 (temp_scalar_var @ '' = '' @ [op] @ ''('' @ code left_res @ '');'') s2))
        else
          (\<lparr>code = ''/* type error */ 0.0'', expr_type = SYMBOL_TYPE_SCALAR,
            is_temporary = 1\<rparr>,
           report_codegen_error
             (''Unsupported unary operation '' @ [CHR 0x27, op, CHR 0x27] @
              '' or type mismatch (Type: '' @
              string_of_nat (SymbolType_num (expr_type left_res)) @ '').'') s1))"
| "generate_expression fmt (Some (NODE_TYPE_FUNC_CALL function_symbol arguments)) s =
     (let func_name = sym_name function_symbol;
          arg_count = length arguments;
          s0 = emit 1 (''// Generating function call: '' @ func_name @ ''()'') s
      in
        if func_name = ''read_vector'' then
          (if arg_count = 0
           then
             (case new_temp_vector_var s0 of (temp_vector_var, s1) \<Rightarrow>
                (\<lparr>code = temp_vector_var, expr_type = SYMBOL_TYPE_VECTOR, is_temporary = 0\<rparr>,
                 emit 1 (temp_vector_var @ '' = runtime_read_vector();'') s1))
           else
             (\<lparr>code = ''/* invalid read_vector call */'', expr_type = SYMBOL_TYPE_VECTOR,
               is_temporary = 1\<rparr>,
              report_codegen_error
                (''read_vector() expects 0 arguments, got '' @ string_of_nat arg_count @ ''.'')
                s0))
        else
          (case generate_arguments fmt arguments s0 of (arg_results, s1) \<Rightarrow>
             if func_name = ''scatter_plot'' then
               (if arg_count = 2 \<and>
                   expr_type (arg_results ! 0) = SYMBOL_TYPE_VECTOR \<and>
                   expr_type (arg_results ! 1) = SYMBOL_TYPE_VECTOR
                then
                  (\<lparr>code = ''/* scatter_plot call */'', expr_type = SYMBOL_TYPE_SCALAR,
                    is_temporary = 1\<rparr>,
                   emit 1 (''c_scatter_plot('' @ code (arg_results ! 0) @ ''.data, '' @
                           code (arg_results ! 0) @ ''.size, '' @
                           code (arg_results ! 1) @ ''.data, '' @
                           code (arg_results ! 1) @ ''.size);'') s1)
                else
                  (\<lparr>code = ''/* invalid scatter_plot call */'',
                    expr_type = SYMBOL_TYPE_SCALAR, is_temporary = 1\<rparr>,
                   report_codegen_error ''scatter_plot() expects 2 vector arguments.'' s1))
             else
               (let arg_str_capacity = arg_count * 25 + 5;
                    arg_str = arg_str_loop arg_str_capacity 0 arg_results []
                in case new_temp_scalar_var s1 of (temp_scalar_var, s2) \<Rightarrow>
                     (\<lparr>code = temp_scalar_var, expr_type = SYMBOL_TYPE_SCALAR,
                       is_temporary = 0\<rparr>,
                      emit 1 (temp_scalar_var @ '' = '' @ func_name @ ''('' @ arg_str @
                              ''); // Generic function call result'') s2))))"
| "generate_expression fmt (Some NODE_TYPE_UNKNOWN) s =
     default_expression (NodeType_num (NODE_TYPE_UNKNOWN :: 'd ASTNode)) s"
| "generate_expression fmt (Some (NODE_TYPE_ASSIGNMENT target_symbol expression)) s =
     default_expression (NodeType_num (NODE_TYPE_ASSIGNMENT target_symbol expression)) s"
| "generate_expression fmt (Some (NODE_TYPE_STATEMENT_LIST statement_list)) s =
     default_expression (NodeType_num (NODE_TYPE_STATEMENT_LIST statement_list)) s"
| "generate_expression fmt (Some (NODE_TYPE_IF condition if_branch else_branch)) s =
     default_expression (NodeType_num (NODE_TYPE_IF condition if_branch else_branch)) s"
| "generate_expression fmt (Some (NODE_TYPE_WHILE condition loop_body)) s =
     default_expression (NodeType_num (NODE_TYPE_WHILE condition loop_body)) s"
| "generate_vector_items fmt [] s = s"
| "generate_vector_items fmt (item # rest) s =
     (case generate_expression fmt (Some item) s of (elem_res, s1) \<Rightarrow>
        generate_vector_items fmt rest
          (if expr_type elem_res \<noteq> SYMBOL_TYPE_SCALAR
           then emit 2 (''/* WARNING: Non-scalar in vector literal */ 0.0'' @
                        (if rest = [] then [] else '','')) s1
           else emit 2 (code elem_res @ (if rest = [] then [] else '','')) s1))"
| "generate_arguments fmt [] s = ([], s)"
| "generate_arguments fmt (item # rest) s =
     (case generate_expression fmt (Some item) s of (arg_res, s1) \<Rightarrow>
      case generate_arguments fmt rest s1 of (rest_res, s2) \<Rightarrow>
        (arg_res # rest_res, s2))"
  by pat_completeness auto
termination
  by (relation "measure (\<lambda>x. case x of
         Inl (fmt, node, s) \<Rightarrow> 2 * size_option size node
       | Inr (Inl (fmt, items, s)) \<Rightarrow> 2 * size_list size items + 1
       | Inr (Inr (fmt, items, s)) \<Rightarrow> 2 * size_list size items + 1)") auto

subsection \<open>Statements\<close>

text \<open>
  The body shared by the case labels of the expression nodes in \<^verbatim>\<open>generate_statement\<close>
  (number, identifier, vector literal, binary and unary operation, function call).
\<close>

definition expression_statement ::
    "('d \<Rightarrow> string) \<Rightarrow> 'd ASTNode \<Rightarrow> cg_state \<Rightarrow> cg_state" where
  "expression_statement fmt node s =
     (let s1 = emit 1 ''// Expression/Call statement (value discarded)'' s
      in case generate_expression fmt (Some node) s1 of (expr_res, s2) \<Rightarrow>
           let s3 = (if (case node of
                           NODE_TYPE_FUNC_CALL function_symbol arguments \<Rightarrow>
                             sym_name function_symbol \<noteq> ''scatter_plot''
                         | _ \<Rightarrow> True)
                     then emit 1 (''(void)('' @ code expr_res @ ''); // Discard result'') s2
                     else s2)
           in if expr_type expr_res = SYMBOL_TYPE_VECTOR \<and> is_temporary expr_res = 0
              then emit 1 (''// vector_free_data(&'' @ code expr_res @
                           ''); // Free temp vector result if needed'') s3
              else s3)"

text \<open>
  \<open>generate_statement_items\<close> is the loop over the statements of a block.
\<close>

function
  generate_statement ::
    "('d \<Rightarrow> string) \<Rightarrow> 'd ASTNode option \<Rightarrow> cg_state \<Rightarrow> cg_state" and
  generate_statement_items ::
    "('d \<Rightarrow> string) \<Rightarrow> 'd ASTNode list \<Rightarrow> cg_state \<Rightarrow> cg_state"
where
  "generate_statement fmt None s = s"
| "generate_statement fmt (Some (NODE_TYPE_STATEMENT_LIST statement_list)) s =
     (if codegen_error_occurred s \<noteq> 0 then s
      else
        emit 1 ''} // End block''
          (generate_statement_items fmt statement_list (emit 1 ''{ // Start block'' s)))"
| "generate_statement fmt (Some (NODE_TYPE_ASSIGNMENT target_sym expression)) s =
     (if codegen_error_occurred s \<noteq> 0 then s
      else
        let target_var = sym_name target_sym;
            s1 = emit 1 (''// Assignment to '' @ target_var @ '' (Type: '' @
                         string_of_nat (SymbolType_num (sym_type target_sym)) @ '')'') s
        in case generate_expression fmt expression s1 of (expr_res, s2) \<Rightarrow>
             if codegen_error_occurred s2 \<noteq> 0 then s2
             else
               let s3 = emit 1 (''// RHS Type: '' @
                                string_of_nat (SymbolType_num (expr_type expr_res))) s2
               in if \<not> ((sym_type target_sym = SYMBOL_TYPE_SCALAR \<and>
                           expr_type expr_res = SYMBOL_TYPE_SCALAR) \<or>
                          (sym_type target_sym = SYMBOL_TYPE_VECTOR \<and>
                           expr_type expr_res = SYMBOL_TYPE_VECTOR))
                  then
                    report_codegen_error
                      (''Type mismatch in assignment to '' @ [CHR 0x27] @ target_var @
                       [CHR 0x27] @ '' (Target: '' @
                       string_of_nat (SymbolType_num (sym_type target_sym)) @ '', RHS: '' @
                       string_of_nat (SymbolType_num (expr_type expr_res)) @ '')'') s3
                  else if sym_type target_sym = SYMBOL_TYPE_SCALAR
                  then emit 1 (target_var @ '' = '' @ code expr_res @ '';'') s3
                  else emit 1 (''vector_assign(&'' @ target_var @ '', '' @ code expr_res @
                               '');'') s3)"
| "generate_statement fmt (Some (NODE_TYPE_NUMBER number_value)) s =
     (if codegen_error_occurred s \<noteq> 0 then s
      else expression_statement fmt (NODE_TYPE_NUMBER number_value) s)"
| "generate_statement fmt (Some (NODE_TYPE_IDENTIFIER identifier_symbol)) s =
     (if codegen_error_occurred s \<noteq> 0 then s
      else expression_statement fmt (NODE_TYPE_IDENTIFIER identifier_symbol) s)"
| "generate_statement fmt (Some (NODE_TYPE_VECTOR vector_elements)) s =
     (if codegen_error_occurred s \<noteq> 0 then s
      else expression_statement fmt (NODE_TYPE_VECTOR vector_elements) s)"
| "generate_statement fmt (Some (NODE_TYPE_BINARY_OP op left right)) s =
     (if codegen_error_occurred s \<noteq> 0 then s
      else expression_statement fmt (NODE_TYPE_BINARY_OP op left right) s)"
| "generate_statement fmt (Some (NODE_TYPE_UNARY_OP op operand)) s =
     (if codegen_error_occurred s \<noteq> 0 then s
      else expression_statement fmt (NODE_TYPE_UNARY_OP op operand) s)"
| "generate_statement fmt (Some (NODE_TYPE_FUNC_CALL function_symbol arguments)) s =
     (if codegen_error_occurred s \<noteq> 0 then s
      else expression_statement fmt (NODE_TYPE_FUNC_CALL function_symbol arguments) s)"
| "generate_statement fmt (Some (NODE_TYPE_IF condition if_branch else_branch)) s =
     (if codegen_error_occurred s \<noteq> 0 then s
      else
        let s1 = emit 1 ''// If statement'' s
        in case generate_expression fmt condition s1 of (expr_res, s2) \<Rightarrow>
             if codegen_error_occurred s2 \<noteq> 0
             then emit 1 ''if (0) { // Type error in condition'' s2
             else
               let s3 = (if expr_type expr_res \<noteq> SYMBOL_TYPE_SCALAR
                         then emit 1 ''if (0) { // Type error in condition''
                                (report_codegen_error
                                   ''Non-scalar condition used for IF statement.'' s2)
                         else emit 1 (''if (('' @ code expr_res @ '') != 0.0) {'') s2);
                   s4 = generate_statement fmt if_branch s3;
                   s5 = emit 1 ''}'' s4
               in (case else_branch of
                     None \<Rightarrow> s5
                   | Some e \<Rightarrow>
                       emit 1 ''}''
                         (generate_statement fmt else_branch (emit 1 ''else {'' s5))))"
| "generate_statement fmt (Some (NODE_TYPE_WHILE condition loop_body)) s =
     (if codegen_error_occurred s \<noteq> 0 then s
      else
        let s1 = emit 1 ''// While loop'' s
        in case generate_expression fmt condition s1 of (expr_res, s2) \<Rightarrow>
             if codegen_error_occurred s2 \<noteq> 0
             then emit 1 ''while (0) { // Type error in condition'' s2
             else
               let s3 = (if expr_type expr_res \<noteq> SYMBOL_TYPE_SCALAR
                         then emit 1 ''while (0) { // Type error in condition''
                                (report_codegen_error
                                   ''Non-scalar condition used for WHILE statement.'' s2)
                         else emit 1 (''while (('' @ code expr_res @ '') != 0.0) {'') s2);
                   s4 = generate_statement fmt loop_body s3
               in emit 1 ''} // End while'' s4)"
| "generate_statement fmt (Some NODE_TYPE_UNKNOWN) s =
     (if codegen_error_occurred s \<noteq> 0 then s
      else emit 1 (''// Statement generation not implemented for node type '' @
                   string_of_nat (NodeType_num (NODE_TYPE_UNKNOWN :: 'd ASTNode))) s)"
| "generate_statement_items fmt [] s = s"
| "generate_statement_items fmt (item # rest) s =
     generate_statement_items fmt rest (generate_statement fmt (Some item) s)"
  by pat_completeness auto
termination
  by (relation "measure (\<lambda>x. case x of
         Inl (fmt, node, s) \<Rightarrow> 2 * size_option size node
       | Inr (fmt, items, s) \<Rightarrow> 2 * size_list size items + 1)") auto

subsection \<open>Program assembly\<close>

text \<open>
  The runtime helper library is written by a fixed sequence of calls \<^verbatim>\<open>emit(n, literal)\<close>,
  listed here as pairs of the indent level and the text that the call prints. \<^verbatim>\<open>emit\<close>
  hands its literal to \<^verbatim>\<open>vfprintf\<close> as a format string. In eleven places a literal holds a
  conversion (\<^verbatim>\<open>%ld\<close>, and once \<^verbatim>\<open>% i\<close>) for which the call passes no argument; what
  the C library fetches and prints there is not fixed by the program, and \<open>va k\<close> stands
  for the integer printed at the \<open>k\<close>-th such place.
\<close>

definition runtime_helper_lines :: "(nat \<Rightarrow> int) \<Rightarrow> (nat \<times> string) list" where
  \<open>runtime_helper_lines va =
     [(0, ''// --- Runtime Helper Functions ---''),
      (0, ''typedef struct {''),
      (1, ''double* data;''),
      (1, ''size_t size;''),
      (0, ''} Vector;''),
      (0, []),
      (0, ''// Creates a vector (allocates data). Caller must free using vector_free.''),
      (0, ''Vector vector_create(size_t size) {''),
      (1, ''Vector v;''),
      (1, ''v.size = size;''),
      (1, ''if (size > 0) {''),
      (2, ''v.data = (double*)malloc(size * sizeof(double));''),
      (2, ''if (!v.data) { perror("vector_create malloc failed"); exit(1); }''),
      (1, ''} else {''),
      (2, ''v.data = NULL;''),
      (1, ''}''),
      (1, ''return v;''),
      (0, ''}''),
      (0, []),
      (0, ''// Frees the data array within a vector struct.''),
      (0, ''void vector_free_data(Vector *v) {''),
      (1, ''if (v && v->data) {''),
      (2, ''free(v->data);''),
      (2, ''v->data = NULL;''),
      (2, ''v->size = 0;''),
      (1, ''}''),
      (0, ''}''),
      (0, []),
      (0, ''// Assigns vector src to dst (deep copy). Frees existing dst data.''),
      (0, ''void vector_assign(Vector *dst, const Vector src) {''),
      (1, ''vector_free_data(dst); // Free existing data in destination''),
      (1, ''dst->size = src.size;''),
      (1, ''if (src.size > 0 && src.data) {''),
      (2, ''dst->data = (double*)malloc(src.size * sizeof(double));''),
      (2, ''if (!dst->data) { perror("vector_assign malloc failed"); exit(1); }''),
      (2, ''memcpy(dst->data, src.data, src.size * sizeof(double));''),
      (1, ''} else {''),
      (2, ''dst->data = NULL;''),
      (1, ''}''),
      (0, ''}''),
      (0, []),
      (0, ''// Adds two vectors element-wise. Creates a new result vector.''),
      (0, ''Vector vector_add(Vector v1, Vector v2) {''),
      (1, ''if (v1.size != v2.size) { fprintf(stderr, "Runtime Error: Vector size mismatch for add ('' @
          string_of_int (va 0) @ '' != '' @ string_of_int (va 1) @ '')'' @ [CHR 0x5C] @
          ''n", (long)v1.size, (long)v2.size); exit(1); }''),
      (1, ''Vector result = vector_create(v1.size);''),
      (1, ''for (size_t i = 0; i < result.size; ++i) {''),
      (2, ''result.data[i] = v1.data[i] + v2.data[i];''),
      (2, ''}''),
      (1, ''return result;''),
      (0, ''}''),
      (0, []),
      (0, ''// Subtracts v2 from v1 element-wise. Creates a new result vector.''),
      (0, ''Vector vector_sub(Vector v1, Vector v2) {''),
      (1, ''if (v1.size != v2.size) { fprintf(stderr, "Runtime Error: Vector size mismatch for sub ('' @
          string_of_int (va 2) @ '' != '' @ string_of_int (va 3) @ '')'' @ [CHR 0x5C] @
          ''n", (long)v1.size, (long)v2.size); exit(1); }''),
      (1, ''Vector result = vector_create(v1.size);''),
      (1, ''for (size_t i = 0; i < result.size; ++i) {''),
      (2, ''result.data[i] = v1.data[i] - v2.data[i];''),
      (2, ''}''),
      (1, ''return result;''),
      (0, ''}''),
      (0, []),
      (0, ''// Multiplies two vectors element-wise. Creates a new result vector.''),
      (0, ''Vector vector_mul(Vector v1, Vector v2) {''),
      (1, ''if (v1.size != v2.size) { fprintf(stderr, "Runtime Error: Vector size mismatch for mul ('' @
          string_of_int (va 4) @ '' != '' @ string_of_int (va 5) @ '')'' @ [CHR 0x5C] @
          ''n", (long)v1.size, (long)v2.size); exit(1); }''),
      (1, ''Vector result = vector_create(v1.size);''),
      (1, ''for (size_t i = 0; i < result.size; ++i) {''),
      (2, ''result.data[i] = v1.data[i] * v2.data[i];''),
      (2, ''}''),
      (1, ''return result;''),
      (0, ''}''),
      (0, []),
      (0, ''// Divides v1 by v2 element-wise. Creates a new result vector. Checks for division by zero.''),
      (0, ''Vector vector_div(Vector v1, Vector v2) {''),
      (1, ''if (v1.size != v2.size) { fprintf(stderr, "Runtime Error: Vector size mismatch for div ('' @
          string_of_int (va 6) @ '' != '' @ string_of_int (va 7) @ '')'' @ [CHR 0x5C] @
          ''n", (long)v1.size, (long)v2.size); exit(1); }''),
      (1, ''Vector result = vector_create(v1.size);''),
      (1, ''for (size_t i = 0; i < result.size; ++i) {''),
      (2, ''if (v2.data[i] == 0.0) { fprintf(stderr, "Runtime Error: Division by zero in vector division at index '' @
          string_of_int (va 8) @ [CHR 0x5C] @ ''n", (long)i); exit(1); }''),
      (2, ''result.data[i] = v1.data[i] / v2.data[i];''),
      (2, ''}''),
      (1, ''return result;''),
      (0, ''}''),
      (0, []),
      (0, ''// Adds scalar to each element of a vector. Creates new vector.''),
      (0, ''Vector vector_add_scalar(Vector v, double s) {''),
      (1, ''Vector result = vector_create(v.size);''),
      (1, ''for (size_t i = 0; i < result.size; ++i) {''),
      (2, ''result.data[i] = v.data[i] + s;''),
      (1, ''}''),
      (1, ''return result;''),
      (0, ''}''),
      (0, []),
      (0, ''// Reads a vector (space-separated doubles) from stdin until newline.''),
      (0, ''Vector runtime_read_vector() {''),
      (1, ''Vector v = vector_create(0); // Start with empty vector''),
      (1, ''double num;''),
      (1, ''size_t capacity = 0;''),
      (1, ''printf("">>> Enter vector elements separated by spaces, then press Enter:'' @
          [CHR 0x5C] @ ''n");''),
      (1, ''int status;''),
      (1, ''while ((status = scanf("%lf", &num)) == 1) { // Escaped '' @
          (if 0 \<le> va 9 then [CHR 0x20] else []) @ string_of_int (va 9) @
          ''n scanf format string''),
      (2, ''// Resize buffer if needed (simple doubling strategy)''),
      (2, ''if (v.size >= capacity) {''),
      (3, ''capacity = (capacity == 0) ? 8 : capacity * 2;''),
      (3, ''double* new_data = (double*)realloc(v.data, capacity * sizeof(double));''),
      (3, ''if (!new_data) { perror("read_vector realloc failed"); vector_free_data(&v); exit(1); }''),
      (3, ''v.data = new_data;''),
      (2, ''}''),
      (2, ''v.data[v.size++] = num;''),
      (2, ''// Stop reading on newline character''),
      (2, ''char next_char = getchar();''),
      (2, ''if (next_char == '' @ [CHR 0x27] @ [CHR 0x0A] @ [CHR 0x27] @
          '' || next_char == EOF) { break; }''),
      (2, ''ungetc(next_char, stdin); // Put back non-newline char''),
      (1, ''}''),
      (1, ''// Handle case where scanf failed before reading any number or after some numbers''),
      (1, ''if (status != 1 && v.size == 0) { // Check if scanf failed immediately''),
      (2, ''fprintf(stderr, "Runtime Error: Invalid input - expected numbers.'' @ [CHR 0x5C] @
          ''n");''),
      (1, ''}''),
      (1, ''// Clear remaining input buffer until newline or EOF''),
      (1, ''int c;''),
      (1, ''while ((c = getchar()) != '' @ [CHR 0x27] @ [CHR 0x0A] @ [CHR 0x27] @
          '' && c != EOF);''),
      (1, ''printf(""<<< Read '' @ string_of_int (va 10) @ '' elements.'' @ [CHR 0x5C] @
          ''n"", (long)v.size); // Confirmation with escaped quotes''),
      (1, ''return v;''),
      (0, ''}''),
      (0, []),
      (0, ''// --- End Runtime Helper Functions ---''),
      (0, [])]\<close>

definition generate_runtime_helpers :: "(nat \<Rightarrow> int) \<Rightarrow> cg_state \<Rightarrow> cg_state" where
  "generate_runtime_helpers va s =
     fold (\<lambda>(indent_level, text). emit indent_level text) (runtime_helper_lines va) s"

text \<open>
  \<open>declare_variables\<close> and \<open>generate_cleanup_code\<close> walk the symbol list from
  \<open>symbol_get_list_head\<close> on.
\<close>

fun declare_symbols :: "'d Symbol list \<Rightarrow> cg_state \<Rightarrow> cg_state" where
  "declare_symbols [] s = s"
| "declare_symbols (current # rest) s =
     declare_symbols rest
       (if sym_type current = SYMBOL_TYPE_SCALAR
        then emit 1 (''double '' @ sym_name current @ '' = 0.0;'') s
        else if sym_type current = SYMBOL_TYPE_VECTOR
        then emit 1 (''Vector '' @ sym_name current @ '' = { NULL, 0 };'') s
        else emit 1 (''// WARNING: Undefined symbol type for '' @ sym_name current) s)"

definition declare_temporaries :: "cg_state \<Rightarrow> cg_state" where
  "declare_temporaries s =
     fold (\<lambda>i s. emit 1 (''Vector _tv'' @ string_of_nat i @ '' = { NULL, 0 };'')
                   (emit 1 (''double _ts'' @ string_of_nat i @ '';'') s))
          [0..<20] s"

definition declare_variables :: "'d symtab \<Rightarrow> cg_state \<Rightarrow> cg_state" where
  "declare_variables tab s =
     (let s1 = emit 1 ''// --- Variable Declarations ---'' s;
          s2 = declare_symbols (symbol_get_list_head tab) s1;
          s3 = emit 1 (''// Temporary variables (up to '' @ string_of_nat 20 @ '' scalar, '' @
                       string_of_nat 20 @ '' vector)'') s2;
          s4 = declare_temporaries s3;
          s5 = emit 1 ''// ---------------------------'' s4
      in emit 0 [] s5)"

fun cleanup_symbols :: "'d Symbol list \<Rightarrow> cg_state \<Rightarrow> cg_state" where
  "cleanup_symbols [] s = s"
| "cleanup_symbols (current # rest) s =
     cleanup_symbols rest
       (if sym_type current = SYMBOL_TYPE_VECTOR
        then emit 1 (''vector_free_data(&'' @ sym_name current @ '');'') s
        else s)"

definition generate_cleanup_code :: "'d symtab \<Rightarrow> cg_state \<Rightarrow> cg_state" where
  "generate_cleanup_code tab s =
     (let s1 = emit 1 ''// --- Cleanup Code ---'' s;
          s2 = cleanup_symbols (symbol_get_list_head tab) s1;
          s3 = fold (\<lambda>i. emit 1 (''vector_free_data(&_tv'' @ string_of_nat i @ '');''))
                    [0..<nat (temp_var_counter s2)] s2;
          s4 = emit 1 ''// --------------------'' s3
      in emit 0 [] s4)"

text \<open>
  \<open>generate_code\<close> returns the state after the call and what it has done to the file
  \<open>output_filename\<close>: \<open>None\<close> when it returned before opening the file, and otherwise
  the text of the file at \<^verbatim>\<open>fclose\<close>. \<open>fopen_error\<close> says whether \<^verbatim>\<open>fopen\<close> fails, and
  with which message of \<^verbatim>\<open>perror\<close>; the table is the one \<open>symbol_list_head\<close> points to.
\<close>

definition generate_code ::
    "('d \<Rightarrow> string) \<Rightarrow> (nat \<Rightarrow> int) \<Rightarrow> string option \<Rightarrow> 'd symtab \<Rightarrow>
     'd ASTNode option \<Rightarrow> string \<Rightarrow> cg_state \<Rightarrow> cg_state \<times> string option" where
  \<open>generate_code fmt va fopen_error tab ast_root output_filename s =
     (if (case ast_root of Some (NODE_TYPE_STATEMENT_LIST statement_list) \<Rightarrow> False
                         | _ \<Rightarrow> True)
      then
        (s\<lparr>stderr := stderr s @
             ''Error: Cannot generate code from empty or non-statement-list root AST.'' @
             [CHR 0x0A]\<rparr>, None)
      else
        (case fopen_error of
           Some msg \<Rightarrow>
             (s\<lparr>output_file := None,
                stderr := stderr s @ ''Failed to open output C file: '' @ msg @ [CHR 0x0A]\<rparr>,
              None)
         | None \<Rightarrow>
             let s0 = s\<lparr>output_file := Some [], temp_var_counter := 0,
                        codegen_error_occurred := 0\<rparr>;
                 s1 = fold (\<lambda>text. emit 0 text)
                        [''// Generated by WIZUALL Compiler'',
                         [],
                         ''#include <stdio.h>'',
                         ''#include <stdlib.h>'',
                         ''#include <math.h>'',
                         ''#include <string.h> // For memcpy'',
                         ''#include <stddef.h> // For size_t'',
                         ''#include <assert.h>'',
                         ''#include "runtime_viz.h" // Include viz function declarations'',
                         []] s0;
                 s2 = generate_runtime_helpers va s1;
                 s3 = emit 0 ''// --- Main Program ---'' s2;
                 s4 = emit 0 ''int main() {'' s3;
                 s5 = emit 1 (''printf("Executing generated code...'' @ [CHR 0x5C] @
                              ''n");'') s4;
                 s6 = emit 0 [] s5;
                 s7 = declare_variables tab s6;
                 s8 = emit 1 ''// --- Program Statements ---'' s7;
                 s9 = generate_statement fmt ast_root s8;
                 s10 = emit 1 ''// ------------------------'' s9;
                 s11 = emit 0 [] s10;
                 s12 = generate_cleanup_code tab s11;
                 s13 = emit 1 (''printf("Code execution finished.'' @ [CHR 0x5C] @
                               ''n");'') s12;
                 s14 = emit 1 ''return 0;'' s13;
                 s15 = emit 0 ''} // end main'' s14;
                 s16 = s15\<lparr>output_file := None\<rparr>
             in (if codegen_error_occurred s16 \<noteq> 0
                 then s16\<lparr>stderr := stderr s16 @
                        ''Code generation failed due to semantic errors. Output file '' @
                        [CHR 0x27] @ output_filename @ [CHR 0x27] @
                        '' may be incomplete or incorrect.'' @ [CHR 0x0A]\<rparr>
                 else s16\<lparr>stdout := stdout s16 @ ''Code generation complete: '' @
                        output_filename @ [CHR 0x0A]\<rparr>,
                 output_file s15)))\<close>

section \<open>Notions used in the properties\<close>

text \<open>
  An instance of the \<^verbatim>\<open>%f\<close> conversion for the concrete programs below: a \<^verbatim>\<open>double\<close> that
  holds a natural number prints as its decimal digits followed by six zero decimals.
\<close>

definition fmt_f_nat :: "nat \<Rightarrow> string" where
  "fmt_f_nat n = string_of_nat n @ ''.000000''"

text \<open>
  The state in which \<open>generate_code\<close> starts the walk, with nothing written yet; a scalar
  symbol \<^verbatim>\<open>x\<close> and a vector symbol \<^verbatim>\<open>y\<close>.
\<close>

abbreviation (input) fresh_state :: cg_state where
  "fresh_state \<equiv>
     \<lparr>output_file = Some [], temp_var_counter = 0, codegen_error_occurred = 0,
      stderr = [], stdout = []\<rparr>"

abbreviation (input) scalar_x :: "nat Symbol" where
  "scalar_x \<equiv>
     \<lparr>sym_name = ''x'', sym_type = SYMBOL_TYPE_SCALAR, sym_value = scalar_value 0\<rparr>"

abbreviation (input) vector_y :: "nat Symbol" where
  "vector_y \<equiv>
     \<lparr>sym_name = ''y'', sym_type = SYMBOL_TYPE_VECTOR, sym_value = vector_value None 0\<rparr>"


text \<open>
  What \<open>declare_variables\<close> is expected to write for one symbol, and the text of the
  fixed pool of temporaries with the lines that close the declarations.
\<close>

definition declaration_line :: "'d Symbol \<Rightarrow> string" where
  "declaration_line symb =
     (if sym_type symb = SYMBOL_TYPE_SCALAR
      then ''    double '' @ sym_name symb @ '' = 0.0;\<newline>''
      else if sym_type symb = SYMBOL_TYPE_VECTOR
      then ''    Vector '' @ sym_name symb @ '' = { NULL, 0 };\<newline>''
      else ''    // WARNING: Undefined symbol type for '' @ sym_name symb @ ''\<newline>'')"

definition temporary_pool_text :: string where
  "temporary_pool_text =
     ''    // Temporary variables (up to 20 scalar, 20 vector)\<newline>'' @
     ''    double _ts0;\<newline>'' @
     ''    Vector _tv0 = { NULL, 0 };\<newline>'' @
     ''    double _ts1;\<newline>'' @
     ''    Vector _tv1 = { NULL, 0 };\<newline>'' @
     ''    double _ts2;\<newline>'' @
     ''    Vector _tv2 = { NULL, 0 };\<newline>'' @
     ''    double _ts3;\<newline>'' @
     ''    Vector _tv3 = { NULL, 0 };\<newline>'' @
     ''    double _ts4;\<newline>'' @
     ''    Vector _tv4 = { NULL, 0 };\<newline>'' @
     ''    double _ts5;\<newline>'' @
     ''    Vector _tv5 = { NULL, 0 };\<newline>'' @
     ''    double _ts6;\<newline>'' @
     ''    Vector _tv6 = { NULL, 0 };\<newline>'' @
     ''    double _ts7;\<newline>'' @
     ''    Vector _tv7 = { NULL, 0 };\<newline>'' @
     ''    double _ts8;\<newline>'' @
     ''    Vector _tv8 = { NULL, 0 };\<newline>'' @
     ''    double _ts9;\<newline>'' @
     ''    Vector _tv9 = { NULL, 0 };\<newline>'' @
     ''    double _ts10;\<newline>'' @
     ''    Vector _tv10 = { NULL, 0 };\<newline>'' @
     ''    double _ts11;\<newline>'' @
     ''    Vector _tv11 = { NULL, 0 };\<newline>'' @
     ''    double _ts12;\<newline>'' @
     ''    Vector _tv12 = { NULL, 0 };\<newline>'' @
     ''    double _ts13;\<newline>'' @
     ''    Vector _tv13 = { NULL, 0 };\<newline>'' @
     ''    double _ts14;\<newline>'' @
     ''    Vector _tv14 = { NULL, 0 };\<newline>'' @
     ''    double _ts15;\<newline>'' @
     ''    Vector _tv15 = { NULL, 0 };\<newline>'' @
     ''    double _ts16;\<newline>'' @
     ''    Vector _tv16 = { NULL, 0 };\<newline>'' @
     ''    double _ts17;\<newline>'' @
     ''    Vector _tv17 = { NULL, 0 };\<newline>'' @
     ''    double _ts18;\<newline>'' @
     ''    Vector _tv18 = { NULL, 0 };\<newline>'' @
     ''    double _ts19;\<newline>'' @
     ''    Vector _tv19 = { NULL, 0 };\<newline>'' @
     ''    // ---------------------------\<newline>'' @
     ''\<newline>''"

text \<open>
  A text that holds no line break, so that \<open>emit\<close> writes it as one line of the file. The
  names and the numbers of an expression print on one line when no symbol name, no
  operator character and no number printed by \<open>fmt\<close> holds a line break.
\<close>

definition single_line :: "string \<Rightarrow> bool" where
  "single_line t = (CHR 0x0A \<notin> set t)"


text \<open>
  The text of one line that is a comment, or that assigns to a scalar temporary: it holds
  no line break, and it starts with \<^verbatim>\<open>//\<close> or with \<^verbatim>\<open>_ts\<close>, the digits of the counter (with
  its sign) and \<^verbatim>\<open> = \<close>.
\<close>

definition scalar_temp_line :: "string \<Rightarrow> bool" where
  "scalar_temp_line t =
     (single_line t \<and>
      (take 2 t = ''//'' \<or>
       (take 3 t = ''_ts'' \<and>
        take 3 (dropWhile (\<lambda>c. c \<in> set ''-0123456789'') (drop 3 t)) = '' = '')))"

text \<open>
  What \<open>generate_runtime_helpers\<close> is expected to write: the lines of the runtime helper
  library, each behind its indentation and closed by a line break.
\<close>

definition runtime_helper_text :: "(nat \<Rightarrow> int) \<Rightarrow> string" where
  "runtime_helper_text va =
     concat (map (\<lambda>(indent_level, text).
                    concat (replicate indent_level ''    '') @ text @ [CHR 0x0A])
               (runtime_helper_lines va))"

text \<open>
  Two outcomes of the conversions for which the helper literals pass no argument: every
  one of them fetches 0, or every one of them fetches 1.
\<close>

definition stray_zero :: "nat \<Rightarrow> int" where
  "stray_zero k = 0"

definition stray_one :: "nat \<Rightarrow> int" where
  "stray_one k = 1"

text \<open>
  The output file of the second state is that of the first with the lines \<open>ts\<close> written
  after it, one call of \<open>emit\<close> at indent level 1 for each.
\<close>

definition lines_written :: "string list \<Rightarrow> cg_state \<Rightarrow> cg_state \<Rightarrow> bool" where
  "lines_written ts s s' = (output_file s' = output_file (fold (emit 1) ts s))"

text \<open>
  Two states of the generator that agree on its three file-scope variables; they may
  differ in what has been printed on the standard streams.
\<close>

definition same_generator_state :: "cg_state \<Rightarrow> cg_state \<Rightarrow> bool" where
  "same_generator_state s s' =
     (output_file s = output_file s' \<and> temp_var_counter s = temp_var_counter s' \<and>
      codegen_error_occurred s = codegen_error_occurred s')"

section \<open>Properties of the symbol table\<close>

lemma symbol_lookup_loop_None:
  "symbol_lookup_loop n tab = None \<longleftrightarrow> n \<notin> sym_name ` set tab"
  by (induction tab) auto

lemma symbol_lookup_loop_Some:
  "symbol_lookup_loop n tab = Some h \<Longrightarrow>
     h < length tab \<and> sym_name (tab ! (length tab - 1 - h)) = n"
proof (induction tab)
  case Nil
  then show ?case by simp
next
  case (Cons current rest)
  show ?case
  proof (cases "sym_name current = n")
    case True
    with Cons.prems show ?thesis by simp
  next
    case False
    with Cons.prems have l: "symbol_lookup_loop n rest = Some h" by simp
    from Cons.IH [OF l] have h: "h < length rest" and
      n: "sym_name (rest ! (length rest - 1 - h)) = n" by simp_all
    from h have "length (current # rest) - 1 - h = Suc (length rest - 1 - h)" by simp
    with h n show ?thesis by simp
  qed
qed

lemma distinct_names_filter:
  "distinct (map sym_name tab) \<Longrightarrow> n \<in> sym_name ` set tab \<Longrightarrow>
     length (filter (\<lambda>e. sym_name e = n) tab) = 1"
proof (induction tab)
  case Nil
  then show ?case by simp
next
  case (Cons current rest)
  show ?case
  proof (cases "sym_name current = n")
    case True
    with Cons.prems(1) have "n \<notin> sym_name ` set rest" by auto
    then have "filter (\<lambda>e. sym_name e = n) rest = []" by (auto simp: filter_empty_conv)
    with True show ?thesis by simp
  next
    case False
    with Cons show ?thesis by auto
  qed
qed

text \<open>
  Claim C9. Insertion is idempotent. In a table whose entries have pairwise different
  names (the empty table is one, and insertion keeps the property), inserting a name that
  some entry already has returns the handle of an entry with that name and the table as it
  was; inserting a name that no entry has links exactly one new entry at the head, of type
  scalar and value 0. In both cases inserting the same name once more returns the same
  handle and the same table, the handle points to an entry with that name, and the table
  holds exactly one entry with that name. This holds for every name that is not \<^verbatim>\<open>NULL\<close>,
  the empty string included.
\<close>

theorem symbol_insert_idempotent:
  fixes tab :: "('d::zero) symtab"
  assumes d: "distinct (map sym_name tab)"
  shows "(n \<in> sym_name ` set tab \<longrightarrow>
            (\<exists>h symb. symbol_insert (Some n) tab = Inr (h, tab) \<and>
                      symbol_deref tab h = Some symb \<and> sym_name symb = n)) \<and>
         (n \<notin> sym_name ` set tab \<longrightarrow>
            symbol_insert (Some n) tab =
              Inr (length tab,
                   \<lparr>sym_name = n, sym_type = SYMBOL_TYPE_SCALAR, sym_value = scalar_value 0\<rparr>
                   # tab)) \<and>
         (\<forall>h tab'. symbol_insert (Some n) tab = Inr (h, tab') \<longrightarrow>
            symbol_insert (Some n) tab' = Inr (h, tab') \<and>
            (\<exists>symb. symbol_deref tab' h = Some symb \<and> sym_name symb = n) \<and>
            length (filter (\<lambda>e. sym_name e = n) tab') = 1 \<and>
            distinct (map sym_name tab'))"
proof (cases "symbol_lookup_loop n tab")
  case None
  then have absent: "n \<notin> sym_name ` set tab" by (simp add: symbol_lookup_loop_None)
  let ?new = "\<lparr>sym_name = n, sym_type = SYMBOL_TYPE_SCALAR, sym_value = scalar_value (0::'d)\<rparr>"
  have ins: "symbol_insert (Some n) tab = Inr (length tab, ?new # tab)"
    using None by simp
  have again: "symbol_insert (Some n) (?new # tab) = Inr (length tab, ?new # tab)"
    by simp
  have deref: "symbol_deref (?new # tab) (length tab) = Some ?new"
    by (simp add: symbol_deref_def)
  have "filter (\<lambda>e. sym_name e = n) tab = []"
    using absent by (auto simp: filter_empty_conv)
  then have one: "length (filter (\<lambda>e. sym_name e = n) (?new # tab)) = 1" by simp
  have dist: "distinct (map sym_name (?new # tab))" using d absent by simp
  show ?thesis using absent ins again deref one dist by simp
next
  case (Some h)
  then have present: "n \<in> sym_name ` set tab"
    using symbol_lookup_loop_None [of n tab] by simp
  have ins: "symbol_insert (Some n) tab = Inr (h, tab)" using Some by simp
  from symbol_lookup_loop_Some [OF Some]
  have deref: "symbol_deref tab h = Some (tab ! (length tab - 1 - h))"
    and nm: "sym_name (tab ! (length tab - 1 - h)) = n"
    by (simp_all add: symbol_deref_def)
  have one: "length (filter (\<lambda>e. sym_name e = n) tab) = 1"
    using d present by (rule distinct_names_filter)
  show ?thesis using present ins deref nm one d by simp
qed

theorem symbol_insert_idempotent_witness:
  "distinct (map sym_name ([] :: nat symtab)) \<and>
   symbol_insert (Some ''x'') ([] :: nat symtab) =
     Inr (0, [\<lparr>sym_name = ''x'', sym_type = SYMBOL_TYPE_SCALAR, sym_value = scalar_value 0\<rparr>]) \<and>
   symbol_insert (Some ''x'')
     [\<lparr>sym_name = ''x'', sym_type = SYMBOL_TYPE_SCALAR, sym_value = scalar_value (0::nat)\<rparr>] =
     Inr (0, [\<lparr>sym_name = ''x'', sym_type = SYMBOL_TYPE_SCALAR, sym_value = scalar_value 0\<rparr>]) \<and>
   length (filter (\<lambda>e. sym_name e = ''x'')
     [\<lparr>sym_name = ''x'', sym_type = SYMBOL_TYPE_SCALAR, sym_value = scalar_value (0::nat)\<rparr>]) = 1"
  using symbol_insert_idempotent [of "[] :: nat symtab" "''x''"]
  by simp

text \<open>
  Claim C10. A call of \<open>symbol_set_vector\<close> on a handle that is not \<^verbatim>\<open>NULL\<close>, with length
  0 or with a \<^verbatim>\<open>NULL\<close> data pointer, leaves a symbol of type vector whose data pointer is
  \<^verbatim>\<open>NULL\<close> (nothing is allocated or copied) and whose size field is the length that was
  passed, whatever the symbol held before. With \<^verbatim>\<open>NULL\<close> data and a positive length the
  recorded size is therefore positive although there is no storage.
\<close>

theorem symbol_set_vector_null_data:
  "sz = 0 \<or> dat = None \<Longrightarrow>
     symbol_set_vector (Some symb) dat sz =
       Some (symb\<lparr>sym_type := SYMBOL_TYPE_VECTOR, sym_value := vector_value None sz\<rparr>)"
  by (cases dat) (auto simp: free_symbol_value_data_def split: SymbolValue.splits option.splits)

theorem symbol_set_vector_null_data_witness:
  "((3::nat) = 0 \<or> (None :: nat list option) = None) \<and>
   symbol_set_vector
     (Some \<lparr>sym_name = ''v'', sym_type = SYMBOL_TYPE_SCALAR, sym_value = scalar_value (5::nat)\<rparr>)
     None 3 =
   Some \<lparr>sym_name = ''v'', sym_type = SYMBOL_TYPE_VECTOR, sym_value = vector_value None 3\<rparr>"
  using symbol_set_vector_null_data
    [of 3 None "\<lparr>sym_name = ''v'', sym_type = SYMBOL_TYPE_SCALAR,
                  sym_value = scalar_value (5::nat)\<rparr>"]
  by simp

section \<open>Properties of the code generator\<close>

subsection \<open>Errors, vector literals and broadcast addition\<close>

lemma generate_statement_skip:
  "codegen_error_occurred s \<noteq> 0 \<Longrightarrow> generate_statement fmt node s = s"
proof (cases node)
  case None
  then show ?thesis by simp
next
  case (Some n)
  assume "codegen_error_occurred s \<noteq> 0"
  with Some show ?thesis by (cases n) simp_all
qed

lemma generate_statement_items_skip:
  "codegen_error_occurred s \<noteq> 0 \<Longrightarrow> generate_statement_items fmt items s = s"
  by (induction items) (simp_all add: generate_statement_skip)


text \<open>
  Claim C8. When the error flag is already set on entry, \<open>generate_statement\<close> returns at
  once for every statement node: the state after the call is the state before it, so
  nothing is written to the output file (what was written before stays), no diagnostic
  is printed and no temporary is allocated.
\<close>

theorem generate_statement_short_circuit:
  "codegen_error_occurred s \<noteq> 0 \<Longrightarrow> generate_statement fmt node s = s"
  by (rule generate_statement_skip)

theorem generate_statement_short_circuit_witness:
  "codegen_error_occurred
     \<lparr>output_file = Some ''x = 1;'', temp_var_counter = 2, codegen_error_occurred = 1,
      stderr = ''Semantic Error: e'', stdout = []\<rparr> \<noteq> 0 \<and>
   generate_statement (\<lambda>v :: nat. ''1.000000'')
     (Some (NODE_TYPE_ASSIGNMENT
        \<lparr>sym_name = ''x'', sym_type = SYMBOL_TYPE_SCALAR, sym_value = scalar_value 0\<rparr>
        (Some (NODE_TYPE_NUMBER 1))))
     \<lparr>output_file = Some ''x = 1;'', temp_var_counter = 2, codegen_error_occurred = 1,
      stderr = ''Semantic Error: e'', stdout = []\<rparr> =
     \<lparr>output_file = Some ''x = 1;'', temp_var_counter = 2, codegen_error_occurred = 1,
      stderr = ''Semantic Error: e'', stdout = []\<rparr>"
  using generate_statement_short_circuit
    [of "\<lparr>output_file = Some ''x = 1;'', temp_var_counter = 2, codegen_error_occurred = 1,
          stderr = ''Semantic Error: e'', stdout = []\<rparr>"
        "\<lambda>v :: nat. ''1.000000''"
        "Some (NODE_TYPE_ASSIGNMENT
           \<lparr>sym_name = ''x'', sym_type = SYMBOL_TYPE_SCALAR, sym_value = scalar_value 0\<rparr>
           (Some (NODE_TYPE_NUMBER 1)))"]
  by simp

text \<open>
  Claim C1, at the program \<^verbatim>\<open>[y, 3]\<close> with \<^verbatim>\<open>y\<close> a vector symbol. The element \<^verbatim>\<open>y\<close> does not
  resolve to scalar; the generator writes the placeholder \<^verbatim>\<open>0.0\<close> for it into the
  initializer and goes on, and after the whole literal the error flag is still 0 and
  nothing has been printed on the error stream.
\<close>

theorem vector_literal_nonscalar_element:
  "generate_expression fmt_f_nat
     (Some (NODE_TYPE_VECTOR [NODE_TYPE_IDENTIFIER vector_y, NODE_TYPE_NUMBER 3]))
     fresh_state =
   (\<lparr>code = ''_tv0'', expr_type = SYMBOL_TYPE_VECTOR, is_temporary = 0\<rparr>,
    \<lparr>output_file = Some
       (''    // Generating vector literal for _tv0\<newline>'' @
        ''    double _tv0_init_data[] = {\<newline>'' @
        ''        /* WARNING: Non-scalar in vector literal */ 0.0,\<newline>'' @
        ''        3.000000\<newline>'' @
        ''    };\<newline>'' @
        ''    vector_assign(&_tv0, (Vector){ _tv0_init_data, 2 });\<newline>''),
     temp_var_counter = 1, codegen_error_occurred = 0, stderr = [], stdout = []\<rparr>)"
  by code_simp

text \<open>
  Claim C2, as stated, fails on the program \<^verbatim>\<open>-y; +x;\<close> (\<^verbatim>\<open>y\<close> a vector, \<^verbatim>\<open>x\<close> a scalar).
  Translated alone, the second statement records an error of its own and prints its
  diagnostic. In the program it follows a statement that has recorded an error, and the
  only diagnostic of the pass is that of the first statement.
\<close>

theorem second_error_not_reported:
  "stderr (generate_statement fmt_f_nat
     (Some (NODE_TYPE_UNARY_OP CHR ''+'' (Some (NODE_TYPE_IDENTIFIER scalar_x))))
     fresh_state) =
     ''Semantic Error: Unsupported unary operation '' @ [CHR 0x27] @ ''+'' @ [CHR 0x27] @
     '' or type mismatch (Type: 1).\<newline>'' \<and>
   stderr (generate_statement fmt_f_nat
     (Some (NODE_TYPE_STATEMENT_LIST
        [NODE_TYPE_UNARY_OP CHR ''-'' (Some (NODE_TYPE_IDENTIFIER vector_y)),
         NODE_TYPE_UNARY_OP CHR ''+'' (Some (NODE_TYPE_IDENTIFIER scalar_x))]))
     fresh_state) =
     ''Semantic Error: Unsupported unary operation '' @ [CHR 0x27] @ ''-'' @ [CHR 0x27] @
     '' or type mismatch (Type: 2).\<newline>''"
  by code_simp

text \<open>
  Claim C2, amended. Once the translation of a statement of a block has recorded a
  semantic error, the loop over the block does not translate the statements that follow:
  the state after the loop is the state after that statement, so nothing is written for
  the later statements and an error in one of them is neither recorded nor reported in
  that pass.
\<close>

theorem error_skips_remaining_statements:
  "codegen_error_occurred (generate_statement fmt (Some st) s) \<noteq> 0 \<Longrightarrow>
     generate_statement_items fmt (st # rest) s = generate_statement fmt (Some st) s"
  by (simp add: generate_statement_items_skip)

theorem error_skips_remaining_statements_witness:
  "codegen_error_occurred (generate_statement fmt_f_nat
     (Some (NODE_TYPE_UNARY_OP CHR ''-'' (Some (NODE_TYPE_IDENTIFIER vector_y))))
     fresh_state) \<noteq> 0 \<and>
   generate_statement_items fmt_f_nat
     [NODE_TYPE_UNARY_OP CHR ''-'' (Some (NODE_TYPE_IDENTIFIER vector_y)),
      NODE_TYPE_UNARY_OP CHR ''+'' (Some (NODE_TYPE_IDENTIFIER scalar_x))] fresh_state =
   generate_statement fmt_f_nat
     (Some (NODE_TYPE_UNARY_OP CHR ''-'' (Some (NODE_TYPE_IDENTIFIER vector_y))))
     fresh_state"
proof -
  have h: "codegen_error_occurred (generate_statement fmt_f_nat
     (Some (NODE_TYPE_UNARY_OP CHR ''-'' (Some (NODE_TYPE_IDENTIFIER vector_y))))
     fresh_state) \<noteq> 0"
    by code_simp
  from error_skips_remaining_statements [OF h] h show ?thesis by blast
qed

text \<open>
  Claim C3, as stated, fails on \<^verbatim>\<open>x + y\<close> with \<^verbatim>\<open>x\<close> a scalar and \<^verbatim>\<open>y\<close> a vector: the call
  that is written passes \<^verbatim>\<open>y\<close> first and \<^verbatim>\<open>x\<close> second, not the operands in source order.
\<close>

theorem scalar_plus_vector_not_in_source_order:
  "output_file (snd (generate_expression fmt_f_nat
     (Some (NODE_TYPE_BINARY_OP CHR ''+'' (Some (NODE_TYPE_IDENTIFIER scalar_x))
              (Some (NODE_TYPE_IDENTIFIER vector_y)))) fresh_state)) =
     Some ''    _tv0 = vector_add_scalar(y, x);\<newline>'' \<and>
   output_file (snd (generate_expression fmt_f_nat
     (Some (NODE_TYPE_BINARY_OP CHR ''+'' (Some (NODE_TYPE_IDENTIFIER scalar_x))
              (Some (NODE_TYPE_IDENTIFIER vector_y)))) fresh_state)) \<noteq>
     Some ''    _tv0 = vector_add_scalar(x, y);\<newline>''"
  by code_simp

text \<open>
  Claim C3, amended. For a binary operation with operator \<^verbatim>\<open>+\<close> whose operands resolve
  to vector and scalar, in either order, the generator allocates a vector temporary and
  writes one call of \<^verbatim>\<open>vector_add_scalar\<close> that passes the code of the vector operand first
  and the code of the scalar operand second: the operands in source order for vector +
  scalar, and in the reverse of source order for scalar + vector. The result is the
  temporary, of kind vector.
\<close>

theorem vector_scalar_add:
  assumes "generate_expression fmt left s = (left_res, s1)"
    and "generate_expression fmt right s1 = (right_res, s2)"
    and "new_temp_vector_var s2 = (temp_vector_var, s3)"
  shows "(expr_type left_res = SYMBOL_TYPE_VECTOR \<and> expr_type right_res = SYMBOL_TYPE_SCALAR \<longrightarrow>
            generate_expression fmt (Some (NODE_TYPE_BINARY_OP CHR ''+'' left right)) s =
              (\<lparr>code = temp_vector_var, expr_type = SYMBOL_TYPE_VECTOR, is_temporary = 0\<rparr>,
               emit 1 (temp_vector_var @ '' = vector_add_scalar('' @ code left_res @ '', '' @
                       code right_res @ '');'') s3)) \<and>
         (expr_type left_res = SYMBOL_TYPE_SCALAR \<and> expr_type right_res = SYMBOL_TYPE_VECTOR \<longrightarrow>
            generate_expression fmt (Some (NODE_TYPE_BINARY_OP CHR ''+'' left right)) s =
              (\<lparr>code = temp_vector_var, expr_type = SYMBOL_TYPE_VECTOR, is_temporary = 0\<rparr>,
               emit 1 (temp_vector_var @ '' = vector_add_scalar('' @ code right_res @ '', '' @
                       code left_res @ '');'') s3))"
  using assms by simp

theorem vector_scalar_add_witness:
  "generate_expression fmt_f_nat (Some (NODE_TYPE_IDENTIFIER vector_y)) fresh_state =
     (\<lparr>code = ''y'', expr_type = SYMBOL_TYPE_VECTOR, is_temporary = 1\<rparr>, fresh_state) \<and>
   generate_expression fmt_f_nat (Some (NODE_TYPE_NUMBER 5)) fresh_state =
     (\<lparr>code = ''5.000000'', expr_type = SYMBOL_TYPE_SCALAR, is_temporary = 1\<rparr>, fresh_state) \<and>
   new_temp_vector_var fresh_state = (''_tv0'', fresh_state\<lparr>temp_var_counter := 1\<rparr>) \<and>
   generate_expression fmt_f_nat
     (Some (NODE_TYPE_BINARY_OP CHR ''+'' (Some (NODE_TYPE_IDENTIFIER vector_y))
              (Some (NODE_TYPE_NUMBER 5)))) fresh_state =
     (\<lparr>code = ''_tv0'', expr_type = SYMBOL_TYPE_VECTOR, is_temporary = 0\<rparr>,
      emit 1 (''_tv0'' @ '' = vector_add_scalar('' @ ''y'' @ '', '' @ ''5.000000'' @ '');'')
        (fresh_state\<lparr>temp_var_counter := 1\<rparr>))"
proof -
  have h1: "generate_expression fmt_f_nat (Some (NODE_TYPE_IDENTIFIER vector_y)) fresh_state =
     (\<lparr>code = ''y'', expr_type = SYMBOL_TYPE_VECTOR, is_temporary = 1\<rparr>, fresh_state)"
    by code_simp
  have h2: "generate_expression fmt_f_nat (Some (NODE_TYPE_NUMBER 5)) fresh_state =
     (\<lparr>code = ''5.000000'', expr_type = SYMBOL_TYPE_SCALAR, is_temporary = 1\<rparr>, fresh_state)"
    by code_simp
  have h3: "new_temp_vector_var fresh_state = (''_tv0'', fresh_state\<lparr>temp_var_counter := 1\<rparr>)"
    by code_simp
  have t: "expr_type \<lparr>code = ''y'', expr_type = SYMBOL_TYPE_VECTOR, is_temporary = 1\<rparr> =
             SYMBOL_TYPE_VECTOR \<and>
           expr_type \<lparr>code = ''5.000000'', expr_type = SYMBOL_TYPE_SCALAR, is_temporary = 1\<rparr> =
             SYMBOL_TYPE_SCALAR"
    by simp
  from vector_scalar_add [OF h1 h2 h3] t
  have "generate_expression fmt_f_nat
     (Some (NODE_TYPE_BINARY_OP CHR ''+'' (Some (NODE_TYPE_IDENTIFIER vector_y))
              (Some (NODE_TYPE_NUMBER 5)))) fresh_state =
     (\<lparr>code = ''_tv0'', expr_type = SYMBOL_TYPE_VECTOR, is_temporary = 0\<rparr>,
      emit 1 (''_tv0'' @ '' = vector_add_scalar('' @
              code \<lparr>code = ''y'', expr_type = SYMBOL_TYPE_VECTOR, is_temporary = 1\<rparr> @ '', '' @
              code \<lparr>code = ''5.000000'', expr_type = SYMBOL_TYPE_SCALAR, is_temporary = 1\<rparr> @
              '');'')
        (fresh_state\<lparr>temp_var_counter := 1\<rparr>))"
    by blast
  then have "generate_expression fmt_f_nat
     (Some (NODE_TYPE_BINARY_OP CHR ''+'' (Some (NODE_TYPE_IDENTIFIER vector_y))
              (Some (NODE_TYPE_NUMBER 5)))) fresh_state =
     (\<lparr>code = ''_tv0'', expr_type = SYMBOL_TYPE_VECTOR, is_temporary = 0\<rparr>,
      emit 1 (''_tv0'' @ '' = vector_add_scalar('' @ ''y'' @ '', '' @ ''5.000000'' @ '');'')
        (fresh_state\<lparr>temp_var_counter := 1\<rparr>))"
    by (simp only: ExprResult.select_convs)
  with h1 h2 h3 show ?thesis by blast
qed

subsection \<open>Assignments and the plotting call\<close>

text \<open>
  Claim C5, as stated, fails on \<^verbatim>\<open>x = -y;\<close> with \<^verbatim>\<open>x\<close> a scalar and \<^verbatim>\<open>y\<close> a vector. The
  right-hand side records an error and resolves to scalar, which is the kind of \<^verbatim>\<open>x\<close>;
  the statement ends there, with only its leading comment written and no assignment.
\<close>

theorem assignment_dropped_after_error:
  "expr_type (fst (generate_expression fmt_f_nat
     (Some (NODE_TYPE_UNARY_OP CHR ''-'' (Some (NODE_TYPE_IDENTIFIER vector_y))))
     (emit 1 ''// Assignment to x (Type: 1)'' fresh_state))) = sym_type scalar_x \<and>
   generate_statement fmt_f_nat
     (Some (NODE_TYPE_ASSIGNMENT scalar_x
        (Some (NODE_TYPE_UNARY_OP CHR ''-'' (Some (NODE_TYPE_IDENTIFIER vector_y))))))
     fresh_state =
   \<lparr>output_file = Some ''    // Assignment to x (Type: 1)\<newline>'',
    temp_var_counter = 0, codegen_error_occurred = 1,
    stderr = ''Semantic Error: Unsupported unary operation '' @ [CHR 0x27] @ ''-'' @
             [CHR 0x27] @ '' or type mismatch (Type: 2).\<newline>'',
    stdout = []\<rparr>"
  by code_simp

text \<open>
  Claim C5, amended. Take an assignment statement that is entered with the error flag
  clear. When the translation of the right-hand side has recorded a semantic error, the
  statement ends there, whatever the kinds of the target and of the right-hand side: the
  state after the statement is the state after the right-hand side, so that no
  assignment is written and no type-mismatch error is reported. When it has recorded
  none: if the target symbol and the right-hand side are both of kind scalar, the direct
  assignment \<^verbatim>\<open>target = code;\<close> is written; if both are of kind vector, the call
  \<^verbatim>\<open>vector_assign(&target, code);\<close> is written; in every other case (the kinds differ, or
  the target is of undefined kind) a type-mismatch error is recorded and printed, and no
  assignment is written. In each of these three cases the only other line written after
  the right-hand side is the comment with its kind.
\<close>

theorem assignment_kind_check:
  assumes "codegen_error_occurred s = 0"
    and "generate_expression fmt expression
           (emit 1 (''// Assignment to '' @ sym_name target_sym @ '' (Type: '' @
                    string_of_nat (SymbolType_num (sym_type target_sym)) @ '')'') s) =
         (expr_res, s2)"
  shows "(codegen_error_occurred s2 \<noteq> 0 \<longrightarrow>
            generate_statement fmt (Some (NODE_TYPE_ASSIGNMENT target_sym expression)) s = s2) \<and>
         (codegen_error_occurred s2 = 0 \<longrightarrow>
            (sym_type target_sym = SYMBOL_TYPE_SCALAR \<and>
             expr_type expr_res = SYMBOL_TYPE_SCALAR \<longrightarrow>
               generate_statement fmt (Some (NODE_TYPE_ASSIGNMENT target_sym expression)) s =
                 emit 1 (sym_name target_sym @ '' = '' @ code expr_res @ '';'')
                   (emit 1 (''// RHS Type: '' @ string_of_nat 1) s2)) \<and>
            (sym_type target_sym = SYMBOL_TYPE_VECTOR \<and>
             expr_type expr_res = SYMBOL_TYPE_VECTOR \<longrightarrow>
               generate_statement fmt (Some (NODE_TYPE_ASSIGNMENT target_sym expression)) s =
                 emit 1 (''vector_assign(&'' @ sym_name target_sym @ '', '' @
                         code expr_res @ '');'')
                   (emit 1 (''// RHS Type: '' @ string_of_nat 2) s2)) \<and>
            (sym_type target_sym \<noteq> expr_type expr_res \<or>
             sym_type target_sym = SYMBOL_TYPE_UNDEFINED \<longrightarrow>
               generate_statement fmt (Some (NODE_TYPE_ASSIGNMENT target_sym expression)) s =
                 report_codegen_error
                   (''Type mismatch in assignment to '' @ [CHR 0x27] @ sym_name target_sym @
                    [CHR 0x27] @ '' (Target: '' @
                    string_of_nat (SymbolType_num (sym_type target_sym)) @ '', RHS: '' @
                    string_of_nat (SymbolType_num (expr_type expr_res)) @ '')'')
                   (emit 1 (''// RHS Type: '' @
                            string_of_nat (SymbolType_num (expr_type expr_res))) s2)))"
  using assms
  by (cases "sym_type target_sym"; cases "expr_type expr_res") (simp_all add: Let_def)

theorem assignment_kind_check_witness:
  "codegen_error_occurred fresh_state = 0 \<and>
   generate_expression fmt_f_nat (Some (NODE_TYPE_NUMBER 5))
     (emit 1 (''// Assignment to '' @ sym_name scalar_x @ '' (Type: '' @
              string_of_nat (SymbolType_num (sym_type scalar_x)) @ '')'') fresh_state) =
     (\<lparr>code = ''5.000000'', expr_type = SYMBOL_TYPE_SCALAR, is_temporary = 1\<rparr>,
      fresh_state\<lparr>output_file := Some ''    // Assignment to x (Type: 1)\<newline>''\<rparr>) \<and>
   codegen_error_occurred
     (fresh_state\<lparr>output_file := Some ''    // Assignment to x (Type: 1)\<newline>''\<rparr>) = 0 \<and>
   generate_statement fmt_f_nat
     (Some (NODE_TYPE_ASSIGNMENT scalar_x (Some (NODE_TYPE_NUMBER 5)))) fresh_state =
     emit 1 (''x'' @ '' = '' @ ''5.000000'' @ '';'')
       (emit 1 (''// RHS Type: '' @ string_of_nat 1)
          (fresh_state\<lparr>output_file := Some ''    // Assignment to x (Type: 1)\<newline>''\<rparr>)) \<and>
   generate_expression fmt_f_nat
     (Some (NODE_TYPE_UNARY_OP CHR ''-'' (Some (NODE_TYPE_IDENTIFIER vector_y))))
     (emit 1 (''// Assignment to '' @ sym_name scalar_x @ '' (Type: '' @
              string_of_nat (SymbolType_num (sym_type scalar_x)) @ '')'') fresh_state) =
     (\<lparr>code = ''/* type error */ 0.0'', expr_type = SYMBOL_TYPE_SCALAR, is_temporary = 1\<rparr>,
      \<lparr>output_file = Some ''    // Assignment to x (Type: 1)\<newline>'',
       temp_var_counter = 0, codegen_error_occurred = 1,
       stderr = ''Semantic Error: Unsupported unary operation '' @ [CHR 0x27] @ ''-'' @
                [CHR 0x27] @ '' or type mismatch (Type: 2).\<newline>'',
       stdout = []\<rparr>) \<and>
   generate_statement fmt_f_nat
     (Some (NODE_TYPE_ASSIGNMENT scalar_x
        (Some (NODE_TYPE_UNARY_OP CHR ''-'' (Some (NODE_TYPE_IDENTIFIER vector_y))))))
     fresh_state =
     \<lparr>output_file = Some ''    // Assignment to x (Type: 1)\<newline>'',
      temp_var_counter = 0, codegen_error_occurred = 1,
      stderr = ''Semantic Error: Unsupported unary operation '' @ [CHR 0x27] @ ''-'' @
               [CHR 0x27] @ '' or type mismatch (Type: 2).\<newline>'',
      stdout = []\<rparr>"
proof -
  have h1: "codegen_error_occurred fresh_state = 0"
    by simp
  have h2: "generate_expression fmt_f_nat (Some (NODE_TYPE_NUMBER 5))
     (emit 1 (''// Assignment to '' @ sym_name scalar_x @ '' (Type: '' @
              string_of_nat (SymbolType_num (sym_type scalar_x)) @ '')'') fresh_state) =
     (\<lparr>code = ''5.000000'', expr_type = SYMBOL_TYPE_SCALAR, is_temporary = 1\<rparr>,
      fresh_state\<lparr>output_file := Some ''    // Assignment to x (Type: 1)\<newline>''\<rparr>)"
    by code_simp
  have h3: "codegen_error_occurred
     (fresh_state\<lparr>output_file := Some ''    // Assignment to x (Type: 1)\<newline>''\<rparr>) = 0"
    by simp
  have t: "sym_type scalar_x = SYMBOL_TYPE_SCALAR \<and>
           expr_type \<lparr>code = ''5.000000'', expr_type = SYMBOL_TYPE_SCALAR, is_temporary = 1\<rparr> =
             SYMBOL_TYPE_SCALAR"
    by simp
  from assignment_kind_check [OF h1 h2] h3 t
  have "generate_statement fmt_f_nat
     (Some (NODE_TYPE_ASSIGNMENT scalar_x (Some (NODE_TYPE_NUMBER 5)))) fresh_state =
     emit 1 (sym_name scalar_x @ '' = '' @
             code \<lparr>code = ''5.000000'', expr_type = SYMBOL_TYPE_SCALAR, is_temporary = 1\<rparr> @
             '';'')
       (emit 1 (''// RHS Type: '' @ string_of_nat 1)
          (fresh_state\<lparr>output_file := Some ''    // Assignment to x (Type: 1)\<newline>''\<rparr>))"
    by blast
  then have a: "generate_statement fmt_f_nat
     (Some (NODE_TYPE_ASSIGNMENT scalar_x (Some (NODE_TYPE_NUMBER 5)))) fresh_state =
     emit 1 (''x'' @ '' = '' @ ''5.000000'' @ '';'')
       (emit 1 (''// RHS Type: '' @ string_of_nat 1)
          (fresh_state\<lparr>output_file := Some ''    // Assignment to x (Type: 1)\<newline>''\<rparr>))"
    by (simp only: ExprResult.select_convs Symbol.select_convs)
  have e2: "generate_expression fmt_f_nat
     (Some (NODE_TYPE_UNARY_OP CHR ''-'' (Some (NODE_TYPE_IDENTIFIER vector_y))))
     (emit 1 (''// Assignment to '' @ sym_name scalar_x @ '' (Type: '' @
              string_of_nat (SymbolType_num (sym_type scalar_x)) @ '')'') fresh_state) =
     (\<lparr>code = ''/* type error */ 0.0'', expr_type = SYMBOL_TYPE_SCALAR, is_temporary = 1\<rparr>,
      \<lparr>output_file = Some ''    // Assignment to x (Type: 1)\<newline>'',
       temp_var_counter = 0, codegen_error_occurred = 1,
       stderr = ''Semantic Error: Unsupported unary operation '' @ [CHR 0x27] @ ''-'' @
                [CHR 0x27] @ '' or type mismatch (Type: 2).\<newline>'',
       stdout = []\<rparr>)"
    by code_simp
  have e3: "codegen_error_occurred
     \<lparr>output_file = Some ''    // Assignment to x (Type: 1)\<newline>'',
      temp_var_counter = 0, codegen_error_occurred = 1,
      stderr = ''Semantic Error: Unsupported unary operation '' @ [CHR 0x27] @ ''-'' @
               [CHR 0x27] @ '' or type mismatch (Type: 2).\<newline>'',
      stdout = []\<rparr> \<noteq> 0"
    by simp
  from assignment_kind_check [OF h1 e2] e3
  have b: "generate_statement fmt_f_nat
     (Some (NODE_TYPE_ASSIGNMENT scalar_x
        (Some (NODE_TYPE_UNARY_OP CHR ''-'' (Some (NODE_TYPE_IDENTIFIER vector_y))))))
     fresh_state =
     \<lparr>output_file = Some ''    // Assignment to x (Type: 1)\<newline>'',
      temp_var_counter = 0, codegen_error_occurred = 1,
      stderr = ''Semantic Error: Unsupported unary operation '' @ [CHR 0x27] @ ''-'' @
               [CHR 0x27] @ '' or type mismatch (Type: 2).\<newline>'',
      stdout = []\<rparr>"
    by blast
  from h1 h2 h3 a e2 b show ?thesis by blast
qed



subsection \<open>Programs of scalar arithmetic and the declarations\<close>

lemma output_file_emit:
  "output_file (emit n t s) =
     map_option (\<lambda>f. f @ concat (replicate n ''    '') @ t @ [CHR 0x0A]) (output_file s)"
  by (simp add: emit_def split: option.splits)

lemma output_file_fold_emit:
  "output_file (fold (emit n) ts s) =
     map_option
       (\<lambda>f. f @ concat (map (\<lambda>t. concat (replicate n ''    '') @ t @ [CHR 0x0A]) ts))
       (output_file s)"
proof (induction ts arbitrary: s)
  case Nil
  show ?case by (simp add: option.map_ident)
next
  case (Cons t ts)
  show ?case
    by (cases "output_file s") (simp_all add: Cons.IH output_file_emit)
qed

lemma lines_written_Nil: "output_file s' = output_file s \<Longrightarrow> lines_written [] s s'"
  by (simp add: lines_written_def)









lemma scalar_temp_line_comment:
  "single_line rest \<Longrightarrow> scalar_temp_line (''// '' @ rest)"
  by (simp add: scalar_temp_line_def single_line_def)







lemma output_file_declare_symbols:
  "output_file (declare_symbols tab s) =
     map_option (\<lambda>f. f @ concat (map declaration_line tab)) (output_file s)"
proof (induction tab arbitrary: s)
  case Nil
  show ?case by (simp add: option.map_ident)
next
  case (Cons current rest)
  show ?case
    by (cases "output_file s")
       (simp_all add: Cons.IH output_file_emit declaration_line_def)
qed

lemma output_file_fold_emit_pairs:
  "output_file (fold (\<lambda>i s. emit n (g i) (emit m (h i) s)) xs s) =
     map_option
       (\<lambda>f. f @ concat (map (\<lambda>i. concat (replicate m ''    '') @ h i @ [CHR 0x0A] @
                                   concat (replicate n ''    '') @ g i @ [CHR 0x0A]) xs))
       (output_file s)"
proof (induction xs arbitrary: s)
  case Nil
  show ?case by (simp add: option.map_ident)
next
  case (Cons x xs)
  show ?case
    by (cases "output_file s") (simp_all add: Cons.IH output_file_emit)
qed

lemma temporary_lines:
  "''    '' @ (''// Temporary variables (up to '' @ string_of_nat 20 @ '' scalar, '' @
               string_of_nat 20 @ '' vector)'') @ [CHR 0x0A] @
   concat (map (\<lambda>i. ''    '' @ (''double _ts'' @ string_of_nat i @ '';'') @ [CHR 0x0A] @
                     ''    '' @ (''Vector _tv'' @ string_of_nat i @ '' = { NULL, 0 };'') @
                     [CHR 0x0A]) [0..<20]) @
   ''    '' @ ''// ---------------------------'' @ [CHR 0x0A] @ [] @ [CHR 0x0A] =
   temporary_pool_text"
  by code_simp

lemma output_file_declare_variables:
  "output_file (declare_variables tab s) =
     map_option
       (\<lambda>f. f @ ''    // --- Variable Declarations ---\<newline>'' @
            concat (map declaration_line tab) @ temporary_pool_text)
       (output_file s)"
proof (cases "output_file s")
  case None
  then show ?thesis
    by (simp add: declare_variables_def declare_temporaries_def symbol_get_list_head_def
        Let_def output_file_emit output_file_declare_symbols output_file_fold_emit_pairs)
next
  case (Some f)
  then show ?thesis
    unfolding temporary_lines [symmetric]
    by (simp add: declare_variables_def declare_temporaries_def symbol_get_list_head_def
        Let_def output_file_emit output_file_declare_symbols output_file_fold_emit_pairs)
qed

text \<open>
  Lines without a line break are determined by the text they make up, so the property of
  the lines is one of the file. It tells the walks that allocate a vector temporary from
  those that do not: the call \<^verbatim>\<open>f([1])\<close> takes \<^verbatim>\<open>_tv0\<close> for its argument, and the text
  written for it is not made of comments and assignments to scalar temporaries.
\<close>

lemma first_line_break:
  "x \<notin> set xs \<Longrightarrow> x \<notin> set xs' \<Longrightarrow> xs @ x # ys = xs' @ x # ys' \<Longrightarrow>
     xs = xs' \<and> ys = ys'"
proof (induction xs arbitrary: xs')
  case Nil
  then show ?case by (cases xs') auto
next
  case (Cons a xs)
  then show ?case by (cases xs') auto
qed

lemma single_lines_unique:
  "\<forall>t \<in> set ts. single_line t \<Longrightarrow> \<forall>u \<in> set us. single_line u \<Longrightarrow>
     concat (map (\<lambda>t. concat (replicate n ''    '') @ t @ [CHR 0x0A]) ts) =
     concat (map (\<lambda>t. concat (replicate n ''    '') @ t @ [CHR 0x0A]) us) \<Longrightarrow>
     ts = us"
proof (induction ts arbitrary: us)
  case Nil
  then show ?case by (cases us) simp_all
next
  case (Cons t ts)
  show ?case
  proof (cases us)
    case Nil
    with Cons.prems(3) show ?thesis by simp
  next
    case (Cons u us')
    from Cons.prems(1) have t: "CHR 0x0A \<notin> set t" and ts: "\<forall>t \<in> set ts. single_line t"
      by (simp_all add: single_line_def)
    from Cons.prems(2) Cons have u: "CHR 0x0A \<notin> set u" and us': "\<forall>u \<in> set us'. single_line u"
      by (simp_all add: single_line_def)
    from Cons.prems(3) Cons
    have "t @ CHR 0x0A # concat (map (\<lambda>t. concat (replicate n ''    '') @ t @ [CHR 0x0A]) ts) =
        u @ CHR 0x0A # concat (map (\<lambda>t. concat (replicate n ''    '') @ t @ [CHR 0x0A]) us')"
      by simp
    with t u have "t = u \<and>
        concat (map (\<lambda>t. concat (replicate n ''    '') @ t @ [CHR 0x0A]) ts) =
        concat (map (\<lambda>t. concat (replicate n ''    '') @ t @ [CHR 0x0A]) us')"
      by (intro first_line_break)
    with Cons.IH [OF ts us'] Cons show ?thesis by simp
  qed
qed

lemma vector_literal_argument_lines:
  "\<not> (\<exists>ts. (\<forall>t \<in> set ts. scalar_temp_line t) \<and>
          lines_written ts fresh_state
            (snd (generate_expression fmt_f_nat
               (Some (NODE_TYPE_FUNC_CALL
                  \<lparr>sym_name = ''f'', sym_type = SYMBOL_TYPE_UNDEFINED,
                   sym_value = scalar_value 0\<rparr>
                  [NODE_TYPE_VECTOR [NODE_TYPE_NUMBER 1]]))
               fresh_state)))"
proof
  let ?us = "[''// Generating function call: f()'',
              ''// Generating vector literal for _tv0'',
              ''double _tv0_init_data[] = {'',
              ''    1.000000'',
              ''};'',
              ''vector_assign(&_tv0, (Vector){ _tv0_init_data, 1 });'',
              ''_ts1 = f(_tv0.data, _tv0.size); // Generic function call result'']"
  let ?s' = "snd (generate_expression fmt_f_nat
               (Some (NODE_TYPE_FUNC_CALL
                  \<lparr>sym_name = ''f'', sym_type = SYMBOL_TYPE_UNDEFINED,
                   sym_value = scalar_value 0\<rparr>
                  [NODE_TYPE_VECTOR [NODE_TYPE_NUMBER 1]]))
               fresh_state)"
  assume "\<exists>ts. (\<forall>t \<in> set ts. scalar_temp_line t) \<and> lines_written ts fresh_state ?s'"
  then obtain ts where a: "\<forall>t \<in> set ts. scalar_temp_line t"
    and w: "lines_written ts fresh_state ?s'"
    by blast
  have us: "\<forall>u \<in> set ?us. single_line u"
    by code_simp
  have w': "lines_written ?us fresh_state ?s'"
    by code_simp
  from a have "\<forall>t \<in> set ts. single_line t"
    by (simp add: scalar_temp_line_def)
  moreover from w w'
  have "concat (map (\<lambda>t. concat (replicate 1 ''    '') @ t @ [CHR 0x0A]) ts) =
      concat (map (\<lambda>t. concat (replicate 1 ''    '') @ t @ [CHR 0x0A]) ?us)"
    unfolding lines_written_def output_file_fold_emit by simp
  ultimately have "ts = ?us"
    using us by (intro single_lines_unique)
  with a have "scalar_temp_line ''double _tv0_init_data[] = {''"
    by simp
  moreover have "\<not> scalar_temp_line ''double _tv0_init_data[] = {''"
    by code_simp
  ultimately show False by contradiction
qed




subsection \<open>Independence of the starting state\<close>

lemma same_emit:
  "same_generator_state s s' \<Longrightarrow> same_generator_state (emit n t s) (emit n t s')"
  by (auto simp: same_generator_state_def emit_def split: option.splits)

lemma same_report:
  "same_generator_state s s' \<Longrightarrow>
     same_generator_state (report_codegen_error m s) (report_codegen_error m s')"
  by (auto simp: same_generator_state_def report_codegen_error_def)

lemma same_new_temp_scalar_var:
  "same_generator_state s s' \<Longrightarrow>
     fst (new_temp_scalar_var s) = fst (new_temp_scalar_var s') \<and>
     same_generator_state (snd (new_temp_scalar_var s)) (snd (new_temp_scalar_var s'))"
  by (auto simp: same_generator_state_def new_temp_scalar_var_def)

lemma same_new_temp_vector_var:
  "same_generator_state s s' \<Longrightarrow>
     fst (new_temp_vector_var s) = fst (new_temp_vector_var s') \<and>
     same_generator_state (snd (new_temp_vector_var s)) (snd (new_temp_vector_var s'))"
  by (auto simp: same_generator_state_def new_temp_vector_var_def)


lemmas same_unfold =
  same_generator_state_def emit_def report_codegen_error_def new_temp_scalar_var_def
  new_temp_vector_var_def Let_def

lemma same_binary:
  assumes "generate_expression fmt left s = (l, s1)"
    and "generate_expression fmt left s' = (l, s1')"
    and "generate_expression fmt right s1 = (r, s2)"
    and "generate_expression fmt right s1' = (r, s2')"
    and "same_generator_state s2 s2'"
  shows "fst (generate_expression fmt (Some (NODE_TYPE_BINARY_OP op left right)) s) =
         fst (generate_expression fmt (Some (NODE_TYPE_BINARY_OP op left right)) s') \<and>
         same_generator_state
           (snd (generate_expression fmt (Some (NODE_TYPE_BINARY_OP op left right)) s))
           (snd (generate_expression fmt (Some (NODE_TYPE_BINARY_OP op left right)) s'))"
  using assms by (simp add: same_unfold split: option.splits)

lemma same_unary:
  assumes "generate_expression fmt operand s = (l, s1)"
    and "generate_expression fmt operand s' = (l, s1')"
    and "same_generator_state s1 s1'"
  shows "fst (generate_expression fmt (Some (NODE_TYPE_UNARY_OP op operand)) s) =
         fst (generate_expression fmt (Some (NODE_TYPE_UNARY_OP op operand)) s') \<and>
         same_generator_state
           (snd (generate_expression fmt (Some (NODE_TYPE_UNARY_OP op operand)) s))
           (snd (generate_expression fmt (Some (NODE_TYPE_UNARY_OP op operand)) s'))"
  using assms by (simp add: same_unfold split: option.splits)

lemma same_call:
  assumes "generate_arguments fmt arguments
             (emit 1 (''// Generating function call: '' @ sym_name f @ ''()'') s) = (rs, s1)"
    and "generate_arguments fmt arguments
             (emit 1 (''// Generating function call: '' @ sym_name f @ ''()'') s') = (rs, s1')"
    and "same_generator_state s1 s1'"
    and "same_generator_state s s'"
  shows "fst (generate_expression fmt (Some (NODE_TYPE_FUNC_CALL f arguments)) s) =
         fst (generate_expression fmt (Some (NODE_TYPE_FUNC_CALL f arguments)) s') \<and>
         same_generator_state
           (snd (generate_expression fmt (Some (NODE_TYPE_FUNC_CALL f arguments)) s))
           (snd (generate_expression fmt (Some (NODE_TYPE_FUNC_CALL f arguments)) s'))"
  using assms by (simp add: same_unfold split: option.splits)

lemma same_vector:
  assumes "\<And>t t'. same_generator_state t t' \<Longrightarrow>
             same_generator_state (generate_vector_items fmt items t)
               (generate_vector_items fmt items t')"
    and "same_generator_state s s'"
  shows "fst (generate_expression fmt (Some (NODE_TYPE_VECTOR items)) s) =
         fst (generate_expression fmt (Some (NODE_TYPE_VECTOR items)) s') \<and>
         same_generator_state
           (snd (generate_expression fmt (Some (NODE_TYPE_VECTOR items)) s))
           (snd (generate_expression fmt (Some (NODE_TYPE_VECTOR items)) s'))"
proof -
  from same_new_temp_vector_var [OF assms(2)]
  obtain n s1 s1' where a: "new_temp_vector_var s = (n, s1)"
    and b: "new_temp_vector_var s' = (n, s1')" and c: "same_generator_state s1 s1'"
    by (cases "new_temp_vector_var s"; cases "new_temp_vector_var s'") auto
  show ?thesis
    using a b c by (simp add: Let_def same_emit assms(1))
qed


lemma same_null:
  "same_generator_state s s' \<Longrightarrow>
     fst (generate_expression fmt None s) = fst (generate_expression fmt None s') \<and>
     same_generator_state (snd (generate_expression fmt None s))
       (snd (generate_expression fmt None s'))"
  by simp

lemma same_results:
  assumes "fst (generate_expression fmt e s) = fst (generate_expression fmt e s') \<and>
           same_generator_state (snd (generate_expression fmt e s))
             (snd (generate_expression fmt e s'))"
  obtains r t t' where "generate_expression fmt e s = (r, t)"
    and "generate_expression fmt e s' = (r, t')" and "same_generator_state t t'"
  using assms
  by (cases "generate_expression fmt e s"; cases "generate_expression fmt e s'") auto

lemma same_expression:
  "same_generator_state s s' \<Longrightarrow>
     fst (generate_expression fmt (Some e) s) = fst (generate_expression fmt (Some e) s') \<and>
     same_generator_state (snd (generate_expression fmt (Some e) s))
       (snd (generate_expression fmt (Some e) s'))"
proof (induction e arbitrary: s s')
  case NODE_TYPE_UNKNOWN
  then show ?case by (simp add: default_expression_def same_emit)
next
  case (NODE_TYPE_NUMBER x)
  then show ?case by simp
next
  case (NODE_TYPE_VECTOR items)
  have I: "set xs \<subseteq> set items \<Longrightarrow> same_generator_state t t' \<Longrightarrow>
      same_generator_state (generate_vector_items fmt xs t) (generate_vector_items fmt xs t')"
    for xs t t'
  proof (induction xs arbitrary: t t')
    case Nil
    then show ?case by simp
  next
    case (Cons x xs)
    from Cons.prems(1) have x: "x \<in> set items" and xs: "set xs \<subseteq> set items"
      by simp_all
    from NODE_TYPE_VECTOR.IH [OF x Cons.prems(2)]
    obtain r u u' where a: "generate_expression fmt (Some x) t = (r, u)"
      and b: "generate_expression fmt (Some x) t' = (r, u')"
      and c: "same_generator_state u u'"
      by (rule same_results)
    show ?case
      using a b by (simp add: Cons.IH [OF xs] same_emit c)
  qed
  show ?case
    using I [OF subset_refl] NODE_TYPE_VECTOR.prems by (rule same_vector)
next
  case (NODE_TYPE_IDENTIFIER x)
  then show ?case by simp
next
  case (NODE_TYPE_BINARY_OP op left right)
  have L: "same_generator_state t t' \<Longrightarrow>
      fst (generate_expression fmt left t) = fst (generate_expression fmt left t') \<and>
      same_generator_state (snd (generate_expression fmt left t))
        (snd (generate_expression fmt left t'))" for t t'
    using NODE_TYPE_BINARY_OP.IH(1) same_null by (cases left) auto
  have R: "same_generator_state t t' \<Longrightarrow>
      fst (generate_expression fmt right t) = fst (generate_expression fmt right t') \<and>
      same_generator_state (snd (generate_expression fmt right t))
        (snd (generate_expression fmt right t'))" for t t'
    using NODE_TYPE_BINARY_OP.IH(2) same_null by (cases right) auto
  from L [OF NODE_TYPE_BINARY_OP.prems]
  obtain l s1 s1' where l1: "generate_expression fmt left s = (l, s1)"
    and l2: "generate_expression fmt left s' = (l, s1')"
    and l3: "same_generator_state s1 s1'"
    by (rule same_results)
  from R [OF l3]
  obtain r s2 s2' where r1: "generate_expression fmt right s1 = (r, s2)"
    and r2: "generate_expression fmt right s1' = (r, s2')"
    and r3: "same_generator_state s2 s2'"
    by (rule same_results)
  show ?case using l1 l2 r1 r2 r3 by (rule same_binary)
next
  case (NODE_TYPE_UNARY_OP op operand)
  have L: "same_generator_state t t' \<Longrightarrow>
      fst (generate_expression fmt operand t) = fst (generate_expression fmt operand t') \<and>
      same_generator_state (snd (generate_expression fmt operand t))
        (snd (generate_expression fmt operand t'))" for t t'
    using NODE_TYPE_UNARY_OP.IH same_null by (cases operand) auto
  from L [OF NODE_TYPE_UNARY_OP.prems]
  obtain l s1 s1' where l1: "generate_expression fmt operand s = (l, s1)"
    and l2: "generate_expression fmt operand s' = (l, s1')"
    and l3: "same_generator_state s1 s1'"
    by (rule same_results)
  show ?case using l1 l2 l3 by (rule same_unary)
next
  case (NODE_TYPE_ASSIGNMENT x1 x2a)
  then show ?case by (simp add: default_expression_def same_emit)
next
  case (NODE_TYPE_STATEMENT_LIST x)
  then show ?case by (simp add: default_expression_def same_emit)
next
  case (NODE_TYPE_IF x1 x2a x3a)
  then show ?case by (simp add: default_expression_def same_emit)
next
  case (NODE_TYPE_WHILE x1 x2a)
  then show ?case by (simp add: default_expression_def same_emit)
next
  case (NODE_TYPE_FUNC_CALL f arguments)
  have A: "set xs \<subseteq> set arguments \<Longrightarrow> same_generator_state t t' \<Longrightarrow>
      fst (generate_arguments fmt xs t) = fst (generate_arguments fmt xs t') \<and>
      same_generator_state (snd (generate_arguments fmt xs t))
        (snd (generate_arguments fmt xs t'))" for xs t t'
  proof (induction xs arbitrary: t t')
    case Nil
    then show ?case by simp
  next
    case (Cons x xs)
    from Cons.prems(1) have x: "x \<in> set arguments" and xs: "set xs \<subseteq> set arguments"
      by simp_all
    from NODE_TYPE_FUNC_CALL.IH [OF x Cons.prems(2)]
    obtain r u u' where a: "generate_expression fmt (Some x) t = (r, u)"
      and b: "generate_expression fmt (Some x) t' = (r, u')"
      and c: "same_generator_state u u'"
      by (rule same_results)
    from Cons.IH [OF xs c]
    obtain rs' v v' where d: "generate_arguments fmt xs u = (rs', v)"
      and e: "generate_arguments fmt xs u' = (rs', v')"
      and f: "same_generator_state v v'"
      by (cases "generate_arguments fmt xs u"; cases "generate_arguments fmt xs u'") auto
    show ?case
      using a b d e f by simp
  qed
  let ?c = "''// Generating function call: '' @ sym_name f @ ''()''"
  have e: "same_generator_state (emit 1 ?c s) (emit 1 ?c s')"
    using NODE_TYPE_FUNC_CALL.prems by (rule same_emit)
  from A [OF subset_refl e]
  obtain rs s1 s1' where a1: "generate_arguments fmt arguments (emit 1 ?c s) = (rs, s1)"
    and a2: "generate_arguments fmt arguments (emit 1 ?c s') = (rs, s1')"
    and a3: "same_generator_state s1 s1'"
    by (cases "generate_arguments fmt arguments (emit 1 ?c s)";
        cases "generate_arguments fmt arguments (emit 1 ?c s')") auto
  show ?case using a1 a2 a3 NODE_TYPE_FUNC_CALL.prems by (rule same_call)
qed

lemma same_expression_opt:
  "same_generator_state s s' \<Longrightarrow>
     fst (generate_expression fmt e s) = fst (generate_expression fmt e s') \<and>
     same_generator_state (snd (generate_expression fmt e s))
       (snd (generate_expression fmt e s'))"
  using same_expression same_null by (cases e) auto

lemma same_flag:
  "same_generator_state s s' \<Longrightarrow> codegen_error_occurred s = codegen_error_occurred s'"
  by (simp add: same_generator_state_def)

lemma same_expression_statement:
  assumes "same_generator_state s s'"
  shows "same_generator_state (expression_statement fmt e s) (expression_statement fmt e s')"
proof -
  let ?c = "''// Expression/Call statement (value discarded)''"
  have "same_generator_state (emit 1 ?c s) (emit 1 ?c s')"
    using assms by (rule same_emit)
  from same_expression [OF this]
  obtain r t t' where a: "generate_expression fmt (Some e) (emit 1 ?c s) = (r, t)"
    and b: "generate_expression fmt (Some e) (emit 1 ?c s') = (r, t')"
    and c: "same_generator_state t t'"
    by (rule same_results)
  show ?thesis
    unfolding expression_statement_def using a b c
    by (simp add: Let_def same_emit del: generate_expression.simps)
qed

lemma same_statement:
  "same_generator_state s s' \<Longrightarrow>
     same_generator_state (generate_statement fmt (Some e) s)
       (generate_statement fmt (Some e) s')"
proof (induction e arbitrary: s s')
  case NODE_TYPE_UNKNOWN
  then show ?case by (simp add: same_emit same_flag)
next
  case (NODE_TYPE_NUMBER x)
  then show ?case by (simp add: same_expression_statement same_flag)
next
  case (NODE_TYPE_VECTOR x)
  then show ?case by (simp add: same_expression_statement same_flag)
next
  case (NODE_TYPE_IDENTIFIER x)
  then show ?case by (simp add: same_expression_statement same_flag)
next
  case (NODE_TYPE_BINARY_OP x1 x2a x3a)
  then show ?case by (simp add: same_expression_statement same_flag)
next
  case (NODE_TYPE_UNARY_OP x1 x2a)
  then show ?case by (simp add: same_expression_statement same_flag)
next
  case (NODE_TYPE_ASSIGNMENT target expression)
  let ?c = "''// Assignment to '' @ sym_name target @ '' (Type: '' @
            string_of_nat (SymbolType_num (sym_type target)) @ '')''"
  have "same_generator_state (emit 1 ?c s) (emit 1 ?c s')"
    using NODE_TYPE_ASSIGNMENT.prems by (rule same_emit)
  from same_expression_opt [OF this]
  obtain r t t' where a: "generate_expression fmt expression (emit 1 ?c s) = (r, t)"
    and b: "generate_expression fmt expression (emit 1 ?c s') = (r, t')"
    and c: "same_generator_state t t'"
    by (rule same_results)
  show ?case
    using a b c NODE_TYPE_ASSIGNMENT.prems
    by (simp add: Let_def same_emit same_report same_flag)
next
  case (NODE_TYPE_STATEMENT_LIST items)
  have I: "set xs \<subseteq> set items \<Longrightarrow> same_generator_state t t' \<Longrightarrow>
      same_generator_state (generate_statement_items fmt xs t)
        (generate_statement_items fmt xs t')" for xs t t'
  proof (induction xs arbitrary: t t')
    case Nil
    then show ?case by simp
  next
    case (Cons x xs)
    from Cons.prems(1) have x: "x \<in> set items" and xs: "set xs \<subseteq> set items"
      by simp_all
    from NODE_TYPE_STATEMENT_LIST.IH [OF x Cons.prems(2)] Cons.IH [OF xs]
    show ?case by simp
  qed
  show ?case
    using NODE_TYPE_STATEMENT_LIST.prems
    by (simp add: same_flag same_emit I [OF subset_refl])
next
  case (NODE_TYPE_IF condition if_branch else_branch)
  have T: "same_generator_state t t' \<Longrightarrow>
      same_generator_state (generate_statement fmt if_branch t)
        (generate_statement fmt if_branch t')" for t t'
    using NODE_TYPE_IF.IH(2) by (cases if_branch) auto
  have E: "else_branch = Some x \<Longrightarrow> same_generator_state t t' \<Longrightarrow>
      same_generator_state (generate_statement fmt (Some x) t)
        (generate_statement fmt (Some x) t')" for x t t'
    using NODE_TYPE_IF.IH(3) by auto
  have "same_generator_state (emit 1 ''// If statement'' s) (emit 1 ''// If statement'' s')"
    using NODE_TYPE_IF.prems by (rule same_emit)
  from same_expression_opt [OF this]
  obtain r t t' where a: "generate_expression fmt condition (emit 1 ''// If statement'' s) = (r, t)"
    and b: "generate_expression fmt condition (emit 1 ''// If statement'' s') = (r, t')"
    and c: "same_generator_state t t'"
    by (rule same_results)
  show ?case
    using a b c NODE_TYPE_IF.prems
    by (simp add: Let_def same_emit same_report same_flag T E split: option.splits)
next
  case (NODE_TYPE_WHILE condition loop_body)
  have B: "same_generator_state t t' \<Longrightarrow>
      same_generator_state (generate_statement fmt loop_body t)
        (generate_statement fmt loop_body t')" for t t'
    using NODE_TYPE_WHILE.IH(2) by (cases loop_body) auto
  have "same_generator_state (emit 1 ''// While loop'' s) (emit 1 ''// While loop'' s')"
    using NODE_TYPE_WHILE.prems by (rule same_emit)
  from same_expression_opt [OF this]
  obtain r t t' where a: "generate_expression fmt condition (emit 1 ''// While loop'' s) = (r, t)"
    and b: "generate_expression fmt condition (emit 1 ''// While loop'' s') = (r, t')"
    and c: "same_generator_state t t'"
    by (rule same_results)
  show ?case
    using a b c NODE_TYPE_WHILE.prems
    by (simp add: Let_def same_emit same_report same_flag B)
next
  case (NODE_TYPE_FUNC_CALL x1 x2a)
  then show ?case by (simp add: same_expression_statement same_flag)
qed


lemma same_statement_opt:
  "same_generator_state s s' \<Longrightarrow>
     same_generator_state (generate_statement fmt n s) (generate_statement fmt n s')"
  using same_statement by (cases n) auto

lemma same_fold:
  assumes "\<And>x t t'. same_generator_state t t' \<Longrightarrow> same_generator_state (f x t) (f x t')"
    and "same_generator_state s s'"
  shows "same_generator_state (fold f xs s) (fold f xs s')"
  using assms(2) by (induction xs arbitrary: s s') (simp_all add: assms(1))

lemma same_runtime_helpers:
  "same_generator_state s s' \<Longrightarrow>
     same_generator_state (generate_runtime_helpers va s) (generate_runtime_helpers va s')"
  unfolding generate_runtime_helpers_def
  by (rule same_fold) (auto intro: same_emit)

lemma same_declare_symbols:
  "same_generator_state s s' \<Longrightarrow>
     same_generator_state (declare_symbols tab s) (declare_symbols tab s')"
  by (induction tab arbitrary: s s') (simp_all add: same_emit)

lemma same_declare_variables:
  "same_generator_state s s' \<Longrightarrow>
     same_generator_state (declare_variables tab s) (declare_variables tab s')"
  unfolding declare_variables_def declare_temporaries_def Let_def
  by (intro same_emit same_fold same_declare_symbols)

lemma same_cleanup_symbols:
  "same_generator_state s s' \<Longrightarrow>
     same_generator_state (cleanup_symbols tab s) (cleanup_symbols tab s')"
  by (induction tab arbitrary: s s') (simp_all add: same_emit)

lemma same_cleanup_code:
  assumes "same_generator_state s s'"
  shows "same_generator_state (generate_cleanup_code tab s) (generate_cleanup_code tab s')"
proof -
  let ?t = "cleanup_symbols (symbol_get_list_head tab) (emit 1 ''// --- Cleanup Code ---'' s)"
  let ?t' = "cleanup_symbols (symbol_get_list_head tab) (emit 1 ''// --- Cleanup Code ---'' s')"
  have a: "same_generator_state ?t ?t'"
    using assms by (intro same_cleanup_symbols same_emit)
  then have c: "temp_var_counter ?t = temp_var_counter ?t'"
    by (simp add: same_generator_state_def)
  show ?thesis
    unfolding generate_cleanup_code_def Let_def c
    by (intro same_emit same_fold a)
qed

lemma same_output:
  "same_generator_state s s' \<Longrightarrow> output_file s = output_file s'"
  by (simp add: same_generator_state_def)

text \<open>
  The text that \<open>generate_code\<close> writes to the output file does not depend on the state
  in which the run starts, as long as the conversions of the C library, \<open>fmt\<close> and \<open>va\<close>,
  give the same in both runs: the run resets the counter of temporary names and the
  error flag and reopens the file before it writes anything, and the walk reads nothing
  else of the state.
\<close>

lemma generate_code_same_conversions:
  "snd (generate_code fmt va fopen_error tab ast_root output_filename s) =
   snd (generate_code fmt va fopen_error tab ast_root output_filename s')"
proof (cases "case ast_root of Some (NODE_TYPE_STATEMENT_LIST statement_list) \<Rightarrow> False
                | _ \<Rightarrow> True")
  case True
  then show ?thesis by (simp add: generate_code_def)
next
  case root: False
  show ?thesis
  proof (cases fopen_error)
    case (Some msg)
    with root show ?thesis by (simp add: generate_code_def)
  next
    case None
    have s0: "same_generator_state
        (s\<lparr>output_file := Some [], temp_var_counter := 0, codegen_error_occurred := 0\<rparr>)
        (s'\<lparr>output_file := Some [], temp_var_counter := 0, codegen_error_occurred := 0\<rparr>)"
      by (simp add: same_generator_state_def)
    show ?thesis
      unfolding generate_code_def Let_def using root None
      by (simp del: generate_statement.simps fold.simps fold_simps)
         (intro same_output same_emit same_fold same_cleanup_code same_statement_opt
            same_declare_variables same_runtime_helpers s0)
  qed
qed

subsection \<open>The conversions without argument\<close>

lemma fields_emit:
  "temp_var_counter (emit n t s) = temp_var_counter s"
  "codegen_error_occurred (emit n t s) = codegen_error_occurred s"
  by (simp_all add: emit_def split: option.splits)

lemma fields_fold_emit:
  "temp_var_counter (fold (emit n) ts s) = temp_var_counter s"
  "codegen_error_occurred (fold (emit n) ts s) = codegen_error_occurred s"
  by (induction ts arbitrary: s) (simp_all add: fields_emit)

lemma output_file_generate_runtime_helpers:
  "output_file (generate_runtime_helpers va s) =
     map_option (\<lambda>f. f @ runtime_helper_text va) (output_file s)"
proof -
  have "output_file (fold (\<lambda>(i, t). emit i t) ls s) =
     map_option
       (\<lambda>f. f @ concat (map (\<lambda>(i, t). concat (replicate i ''    '') @ t @ [CHR 0x0A]) ls))
       (output_file s)" for ls
  proof (induction ls arbitrary: s)
    case Nil
    show ?case by (simp add: option.map_ident)
  next
    case (Cons x xs)
    show ?case
      by (cases x; cases "output_file s") (simp_all add: Cons.IH output_file_emit)
  qed
  then show ?thesis
    by (simp add: generate_runtime_helpers_def runtime_helper_text_def)
qed

lemma fields_generate_runtime_helpers:
  "temp_var_counter (generate_runtime_helpers va s) = temp_var_counter s"
  "codegen_error_occurred (generate_runtime_helpers va s) = codegen_error_occurred s"
proof -
  have "temp_var_counter (fold (\<lambda>(i, t). emit i t) ls s) = temp_var_counter s \<and>
      codegen_error_occurred (fold (\<lambda>(i, t). emit i t) ls s) = codegen_error_occurred s" for ls
    by (induction ls arbitrary: s) (simp_all add: fields_emit split: prod.splits)
  then show "temp_var_counter (generate_runtime_helpers va s) = temp_var_counter s"
    and "codegen_error_occurred (generate_runtime_helpers va s) = codegen_error_occurred s"
    by (simp_all add: generate_runtime_helpers_def)
qed

lemma fields_declare_variables:
  "temp_var_counter (declare_variables tab s) = temp_var_counter s"
  "codegen_error_occurred (declare_variables tab s) = codegen_error_occurred s"
proof -
  have symbols: "temp_var_counter (declare_symbols l s') = temp_var_counter s' \<and>
      codegen_error_occurred (declare_symbols l s') = codegen_error_occurred s'"
    for l :: "'a Symbol list" and s'
    by (induction l arbitrary: s') (simp_all add: fields_emit)
  have pool: "temp_var_counter (fold (\<lambda>i s. emit n (g i) (emit m (h i) s)) xs s') =
        temp_var_counter s' \<and>
      codegen_error_occurred (fold (\<lambda>i s. emit n (g i) (emit m (h i) s)) xs s') =
        codegen_error_occurred s'"
    for n m g h and xs :: "nat list" and s'
    by (induction xs arbitrary: s') (simp_all add: fields_emit)
  show "temp_var_counter (declare_variables tab s) = temp_var_counter s"
    and "codegen_error_occurred (declare_variables tab s) = codegen_error_occurred s"
    by (simp_all add: declare_variables_def declare_temporaries_def Let_def symbols pool
        fields_emit)
qed

lemma string_of_int_zero: "string_of_int 0 = ''0''"
  by code_simp

lemma string_of_int_one: "string_of_int 1 = ''1''"
  by code_simp

lemma helper_line_zero:
  \<open>runtime_helper_lines stray_zero ! 43 =
     (1, ''if (v1.size != v2.size) { fprintf(stderr, "Runtime Error: Vector size mismatch for add (0 != 0)'' @
         [CHR 0x5C] @ ''n", (long)v1.size, (long)v2.size); exit(1); }'')\<close>
  by (simp add: runtime_helper_lines_def stray_zero_def string_of_int_zero)

lemma helper_line_one:
  \<open>runtime_helper_lines stray_one ! 43 =
     (1, ''if (v1.size != v2.size) { fprintf(stderr, "Runtime Error: Vector size mismatch for add (1 != 1)'' @
         [CHR 0x5C] @ ''n", (long)v1.size, (long)v2.size); exit(1); }'')\<close>
  by (simp add: runtime_helper_lines_def stray_one_def string_of_int_one)

lemma helper_lines_length: "43 < length (runtime_helper_lines va)"
  by (simp add: runtime_helper_lines_def)

lemma helper_lines_prefix:
  "take 43 (runtime_helper_lines va) = take 43 (runtime_helper_lines va')"
  by (simp add: runtime_helper_lines_def)

lemma runtime_helper_text_differs:
  "runtime_helper_text stray_zero \<noteq> runtime_helper_text stray_one"
proof
  assume eq: "runtime_helper_text stray_zero = runtime_helper_text stray_one"
  have s0: "runtime_helper_lines stray_zero =
      take 43 (runtime_helper_lines stray_zero) @ runtime_helper_lines stray_zero ! 43 #
      drop 44 (runtime_helper_lines stray_zero)"
    using id_take_nth_drop [OF helper_lines_length [of stray_zero]] by simp
  have s1: "runtime_helper_lines stray_one =
      take 43 (runtime_helper_lines stray_zero) @ runtime_helper_lines stray_one ! 43 #
      drop 44 (runtime_helper_lines stray_one)"
    using id_take_nth_drop [OF helper_lines_length [of stray_one]]
      helper_lines_prefix [of stray_one stray_zero] by simp
  from eq show False
    unfolding runtime_helper_text_def
    by (subst (asm) s0, subst (asm) s1) (simp add: helper_line_zero helper_line_one)
qed

text \<open>
  Claim C7 does not hold of the code. \<^verbatim>\<open>emit\<close> passes the literals of the runtime helper
  library to \<^verbatim>\<open>vfprintf\<close> as format strings, and eleven conversions in them have no
  argument, so that what is printed in their place is not determined by the syntax tree
  and the symbol table. For the empty program over the empty symbol table, started from
  the same state, a run in which these conversions fetch 0 and a run in which they fetch
  1 write different files: the texts part at the first of these conversions, in the
  size check of \<^verbatim>\<open>vector_add\<close>.
\<close>

theorem output_depends_on_stray_conversions:
  "snd (generate_code fmt_f_nat stray_zero None ([] :: nat symtab)
          (Some (NODE_TYPE_STATEMENT_LIST [])) ''output.c'' fresh_state) \<noteq>
   snd (generate_code fmt_f_nat stray_one None ([] :: nat symtab)
          (Some (NODE_TYPE_STATEMENT_LIST [])) ''output.c'' fresh_state)"
proof
  assume "snd (generate_code fmt_f_nat stray_zero None ([] :: nat symtab)
          (Some (NODE_TYPE_STATEMENT_LIST [])) ''output.c'' fresh_state) =
   snd (generate_code fmt_f_nat stray_one None ([] :: nat symtab)
          (Some (NODE_TYPE_STATEMENT_LIST [])) ''output.c'' fresh_state)"
  then have "runtime_helper_text stray_zero = runtime_helper_text stray_one"
    by (simp add: generate_code_def Let_def output_file_emit output_file_fold_emit
        output_file_generate_runtime_helpers output_file_declare_variables
        fields_emit fields_fold_emit fields_generate_runtime_helpers
        fields_declare_variables generate_cleanup_code_def symbol_get_list_head_def)
  with runtime_helper_text_differs show False by contradiction
qed

end
